theory Spec2Isabelle
  imports Complex_Main "HOL-Library.AList"
begin

section \<open>Text\<close>

text \<open>
  A Python \<open>str\<close> is a sequence of Unicode code points, so a text is a list of code
  points. \<open>lit\<close> writes a text whose characters are ASCII; other characters are written
  by their code point: 225 is a-acute, 227 is a-tilde and 231 is c-cedilla.
\<close>

type_synonym texto = "nat list"

definition lit :: "string \<Rightarrow> texto" where
  "lit s = map of_char s"

text \<open>\<open>starts_with k s\<close>: the text \<open>s\<close> begins with \<open>k\<close>.\<close>

fun starts_with :: "texto \<Rightarrow> texto \<Rightarrow> bool" where
  "starts_with [] s = True"
| "starts_with (k # ks) [] = False"
| "starts_with (k # ks) (c # cs) = (k = c \<and> starts_with ks cs)"

text \<open>\<open>str_in k s\<close> is Python's \<open>k in s\<close> on two strings: \<open>k\<close> occurs in \<open>s\<close> as a
  contiguous run of characters.\<close>

fun str_in :: "texto \<Rightarrow> texto \<Rightarrow> bool" where
  "str_in k [] = (k = [])"
| "str_in k (c # cs) = (starts_with k (c # cs) \<or> str_in k cs)"

text \<open>\<open>any_in ks s\<close> is \<open>any(keyword in s for keyword in ks)\<close>.\<close>

definition any_in :: "texto list \<Rightarrow> texto \<Rightarrow> bool" where
  "any_in ks s = list_ex (\<lambda>keyword. str_in keyword s) ks"

section \<open>Table cells and data frames\<close>

text \<open>
  A pandas cell is a missing value (\<open>NaN\<close>, \<open>None\<close>, \<open>NaT\<close>: all of them are
  \<open>isna\<close>), a text, a whole number, a timestamp, or some other value (a fraction, a
  boolean, ...), which the model only tells apart by a code. A timestamp is what pandas
  stores for \<open>datetime64[ns]\<close>: the nanoseconds since 1970-01-01 00:00:00, so it carries
  a time of day as well as a date.
\<close>

datatype cell = NA | Str texto | Num int | Stamp int | Other nat

text \<open>
  A \<open>DataFrame\<close> is its number of rows and its columns in order, each a name with one
  cell per row. In a well-formed frame the names are distinct (as \<open>read_csv\<close> and
  \<open>read_excel\<close> deliver them) and every column has \<open>nrows\<close> cells.
\<close>

record frame =
  nrows :: nat
  cols :: "(texto \<times> cell list) list"

definition wf_frame :: "frame \<Rightarrow> bool" where
  "wf_frame df \<longleftrightarrow>
     distinct (map fst (cols df)) \<and> list_all (\<lambda>p. length (snd p) = nrows df) (cols df)"

text \<open>The cell of a column in a row, when the frame has both.\<close>

definition cell_at :: "frame \<Rightarrow> texto \<Rightarrow> nat \<Rightarrow> cell option" where
  "cell_at df name i =
     (case map_of (cols df) name of
        None \<Rightarrow> None
      | Some v \<Rightarrow> if i < length v then Some (v ! i) else None)"

datatype error =
    KeyError texto            \<comment> \<open>\<open>df[name]\<close> on a frame without that column\<close>
  | OverflowError            \<comment> \<open>a timestamp difference outside the 64-bit nanosecond range\<close>
  | Nao_Implementada         \<comment> \<open>\<open>st.error(...)\<close>, \<open>st.stop()\<close>: no adapter for the tool\<close>

definition and_then :: "error + 'a \<Rightarrow> ('a \<Rightarrow> error + 'b) \<Rightarrow> error + 'b" where
  "and_then r f = (case r of Inl e \<Rightarrow> Inl e | Inr x \<Rightarrow> f x)"

text \<open>\<open>getitem df name\<close> is the read \<open>df[name]\<close>, which raises \<open>KeyError\<close> on a missing
  column; \<open>setitem df name v\<close> is the assignment \<open>df[name] = v\<close>, which replaces the column
  where it stands or appends it as the last one.\<close>

definition getitem :: "frame \<Rightarrow> texto \<Rightarrow> error + cell list" where
  "getitem df name = (case map_of (cols df) name of None \<Rightarrow> Inl (KeyError name) | Some v \<Rightarrow> Inr v)"

definition setitem :: "frame \<Rightarrow> texto \<Rightarrow> cell list \<Rightarrow> frame" where
  "setitem df name v = df\<lparr>cols := AList.update name v (cols df)\<rparr>"

text \<open>\<open>df[name] = scalar\<close> fills the column with the scalar.\<close>

definition setitem_scalar :: "frame \<Rightarrow> texto \<Rightarrow> cell \<Rightarrow> frame" where
  "setitem_scalar df name c = setitem df name (replicate (nrows df) c)"

text \<open>\<open>loc_set df sel name c\<close> is \<open>df.loc[sel, name] = c\<close>: the rows where the mask holds
  get \<open>c\<close>, the others keep their cell (a column that does not exist yet starts out
  missing everywhere).\<close>

definition loc_set :: "frame \<Rightarrow> bool list \<Rightarrow> texto \<Rightarrow> cell \<Rightarrow> frame" where
  "loc_set df sel name c =
     (let old = (case map_of (cols df) name of None \<Rightarrow> replicate (nrows df) NA | Some v \<Rightarrow> v)
      in setitem df name (map2 (\<lambda>m x. if m then c else x) sel old))"

text \<open>\<open>df.rename(columns=m)\<close> gives a new frame in which every column named by a key of
  \<open>m\<close> carries the mapped name; a key of \<open>m\<close> that names no column is ignored (the
  default \<open>errors='ignore'\<close>).\<close>

definition rename :: "(texto \<times> texto) list \<Rightarrow> frame \<Rightarrow> frame" where
  "rename m df =
     df\<lparr>cols := map (\<lambda>p. (case map_of m (fst p) of None \<Rightarrow> fst p | Some n \<Rightarrow> n, snd p)) (cols df)\<rparr>"

section \<open>The library functions that the program calls\<close>

text \<open>
  Three functions of Python and pandas are parameters of the model, so that every theorem
  holds whatever they compute:
  \<^item> \<open>str_lower\<close> is \<open>str.lower\<close> (on Unicode it may even change the length of a text);
  \<^item> \<open>str_cell\<close> is \<open>str(x)\<close> for a cell \<open>x\<close> that is not a text;
  \<^item> \<open>to_datetime_coerce column i\<close> is the timestamp that
    \<open>pd.to_datetime(column, errors='coerce')\<close> reads in row \<open>i\<close>, or \<open>None\<close> where it
    reads none. It depends on the whole column, because pandas infers one date format for
    a column from its first value.
\<close>

record library =
  str_lower :: "texto \<Rightarrow> texto"
  str_cell :: "cell \<Rightarrow> texto"
  to_datetime_coerce :: "cell list \<Rightarrow> nat \<Rightarrow> int option"

definition py_str :: "library \<Rightarrow> cell \<Rightarrow> texto" where
  "py_str L c = (case c of Str s \<Rightarrow> s | _ \<Rightarrow> str_cell L c)"

text \<open>A missing value stays missing; every other cell becomes the timestamp that pandas
  reads, or missing where it reads none.\<close>

definition to_datetime :: "library \<Rightarrow> cell list \<Rightarrow> cell list" where
  "to_datetime L column =
     map (\<lambda>i. case column ! i of
                 NA \<Rightarrow> NA
               | _ \<Rightarrow> (case to_datetime_coerce L column i of None \<Rightarrow> NA | Some t \<Rightarrow> Stamp t))
         [0..<length column]"

section \<open>The classifier \<open>categorizar_tarefa\<close>\<close>

definition categorizar_tarefa :: "library \<Rightarrow> cell \<Rightarrow> texto" where
  "categorizar_tarefa L nome_tarefa =
     (let nome = str_lower L (py_str L nome_tarefa)
      in if any_in [lit ''dctf'', lit ''sped'', lit ''fiscal'', lit ''imposto'', lit ''das''] nome
         then lit ''Fiscal''
         else if any_in [lit ''balancete'', lit ''cont'' @ [225] @ lit ''bil'',
                         lit ''concilia'' @ [231, 227] @ lit ''o''] nome
         then lit ''Cont'' @ [225] @ lit ''bil''
         else if any_in [lit ''folha'', lit ''admiss'' @ [227] @ lit ''o'',
                         lit ''rescis'' @ [227] @ lit ''o'', lit ''esocial''] nome
         then lit ''Depto. Pessoal''
         else lit ''Outros'')"

section \<open>The schema adapters\<close>

definition colunas_gclick :: "(texto \<times> texto) list" where
  "colunas_gclick =
     [(lit ''Task ID'', lit ''id_tarefa''),
      (lit ''Task Name'', lit ''nome_tarefa''),
      (lit ''Client Name'', lit ''cliente''),
      (lit ''Assignee'', lit ''responsavel''),
      (lit ''Due Date'', lit ''data_prevista_conclusao''),
      (lit ''Completion Date'', lit ''data_real_conclusao'')]"

definition colunas_onvio :: "(texto \<times> texto) list" where
  "colunas_onvio =
     [(lit ''ProcessoID'', lit ''id_tarefa''),
      (lit ''Descricao'', lit ''nome_tarefa''),
      (lit ''NomeCliente'', lit ''cliente''),
      (lit ''Executor'', lit ''responsavel''),
      (lit ''PrazoFatal'', lit ''data_prevista_conclusao''),
      (lit ''DataFinalizacao'', lit ''data_real_conclusao'')]"

definition padronizar_gclick :: "frame \<Rightarrow> frame" where
  "padronizar_gclick df =
     (let df_padronizado = rename colunas_gclick df
      in setitem_scalar df_padronizado (lit ''origem_ferramenta'') (Str (lit ''G-Click'')))"

definition padronizar_onvio :: "frame \<Rightarrow> frame" where
  "padronizar_onvio df =
     (let df_padronizado = rename colunas_onvio df
      in setitem_scalar df_padronizado (lit ''origem_ferramenta'') (Str (lit ''Onvio'')))"

text \<open>The choice of the adapter in the main script: the selected tool's adapter, and a stop
  with an error message for a tool that has none.\<close>

definition adapt :: "texto \<Rightarrow> frame \<Rightarrow> error + frame" where
  "adapt ferramenta_selecionada df_bruto =
     (if ferramenta_selecionada = lit ''G-Click'' then Inr (padronizar_gclick df_bruto)
      else if ferramenta_selecionada = lit ''Onvio Processos'' then Inr (padronizar_onvio df_bruto)
      else Inl Nao_Implementada)"

section \<open>Timestamps and the calendar\<close>

definition day_ns :: int where
  "day_ns = 86400000000000"

text \<open>The proleptic Gregorian date (year, month, day) of a day number counted from
  1970-01-01, computed by eras of 400 years (146097 days) with the year starting in March.\<close>

definition civil_from_days :: "int \<Rightarrow> int \<times> int \<times> int" where
  "civil_from_days z0 =
     (let z = z0 + 719468;
          era = z div 146097;
          doe = z mod 146097;
          yoe = (doe - doe div 1460 + doe div 36524 - doe div 146096) div 365;
          doy = doe - (365 * yoe + yoe div 4 - yoe div 100);
          mp = (5 * doy + 2) div 153;
          d = doy - (153 * mp + 2) div 5 + 1;
          m = (if mp < 10 then mp + 3 else mp - 9);
          y = yoe + era * 400 + (if m \<le> 2 then 1 else 0)
      in (y, m, d))"

text \<open>The decimal digit of the units of a number, as a code point.\<close>

definition digit :: "int \<Rightarrow> nat" where
  "digit d = 48 + nat (d mod 10)"

definition pad2 :: "int \<Rightarrow> texto" where
  "pad2 n = [digit (n div 10), digit n]"

definition pad4 :: "int \<Rightarrow> texto" where
  "pad4 n = [digit (n div 1000), digit (n div 100), digit (n div 10), digit n]"

text \<open>The text of the monthly period of a timestamp, \<open>str(Period(..., 'M'))\<close>:
  \<open>YYYY-MM\<close>.\<close>

definition period_M :: "int \<Rightarrow> texto" where
  "period_M t = (case civil_from_days (t div day_ns) of (y, m, d) \<Rightarrow> pad4 y @ lit ''-'' @ pad2 m)"

text \<open>The operations on the cells of a \<open>datetime64\<close> column and of a column of day
  counts that the metrics use. A comparison with a missing value is false; a difference
  with a missing timestamp is missing; \<open>.dt.days\<close> of a difference is its number of
  whole days, rounded down; \<open>.dt.to_period('M').astype(str)\<close> turns a missing timestamp
  into the text \<open>NaT\<close>.\<close>

definition isna :: "cell \<Rightarrow> bool" where
  "isna c = (c = NA)"

definition gt_cell :: "cell \<Rightarrow> cell \<Rightarrow> bool" where
  "gt_cell a b = (case (a, b) of (Stamp x, Stamp y) \<Rightarrow> x > y | _ \<Rightarrow> False)"

definition sub_days :: "cell \<Rightarrow> cell \<Rightarrow> cell" where
  "sub_days a b = (case (a, b) of (Stamp x, Stamp y) \<Rightarrow> Num ((x - y) div day_ns) | _ \<Rightarrow> NA)"

definition lt_zero :: "cell \<Rightarrow> bool" where
  "lt_zero c = (case c of Num n \<Rightarrow> n < 0 | _ \<Rightarrow> False)"

definition gt_zero :: "cell \<Rightarrow> bool" where
  "gt_zero c = (case c of Num n \<Rightarrow> n > 0 | _ \<Rightarrow> False)"

definition to_period_str :: "cell \<Rightarrow> cell" where
  "to_period_str c = (case c of Stamp t \<Rightarrow> Str (period_M t) | _ \<Rightarrow> Str (lit ''NaT''))"

text \<open>The subtraction of two timestamp columns raises \<open>OverflowError\<close> when a difference
  does not fit the 64-bit count of nanoseconds of a \<open>timedelta64\<close>.\<close>

definition sub_overflows :: "cell \<Rightarrow> cell \<Rightarrow> bool" where
  "sub_overflows a b =
     (case (a, b) of (Stamp x, Stamp y) \<Rightarrow> \<not> (- (2 ^ 63) < x - y \<and> x - y < 2 ^ 63) | _ \<Rightarrow> False)"

section \<open>The metrics engine \<open>calcular_metricas\<close>\<close>

text \<open>The function runs its statements one after the other on the frame; each definition
  below is one group of statements, in the order of the source.\<close>

text \<open>\<open>df[name] = pd.to_datetime(df[name], errors='coerce')\<close>\<close>

definition converter_data :: "library \<Rightarrow> texto \<Rightarrow> frame \<Rightarrow> error + frame" where
  "converter_data L name df =
     and_then (getitem df name) (\<lambda>column. Inr (setitem df name (to_datetime L column)))"

text \<open>\<open>status_prazo\<close>: on time everywhere, then late where the completion is after the
  due date, then pending where the completion is missing.\<close>

definition marcar_status :: "frame \<Rightarrow> error + frame" where
  "marcar_status df =
     (let df1 = setitem_scalar df (lit ''status_prazo'') (Str (lit ''No Prazo''))
      in and_then (getitem df1 (lit ''data_real_conclusao'')) (\<lambda>conclusao.
         and_then (getitem df1 (lit ''data_prevista_conclusao'')) (\<lambda>prevista.
         let df2 = loc_set df1 (map2 gt_cell conclusao prevista) (lit ''status_prazo'')
                     (Str (lit ''Em Atraso''))
         in and_then (getitem df2 (lit ''data_real_conclusao'')) (\<lambda>conclusao2.
            Inr (loc_set df2 (map isna conclusao2) (lit ''status_prazo'') (Str (lit ''Pendente'')))))))"

text \<open>\<open>dias_de_atraso\<close>: the whole days between due date and completion, and 0 where
  that is negative.\<close>

definition calcular_atraso :: "frame \<Rightarrow> error + frame" where
  "calcular_atraso df =
     and_then (getitem df (lit ''data_real_conclusao'')) (\<lambda>conclusao.
     and_then (getitem df (lit ''data_prevista_conclusao'')) (\<lambda>prevista.
     if list_ex (\<lambda>p. sub_overflows (fst p) (snd p)) (zip conclusao prevista) then Inl OverflowError
     else
       let df1 = setitem df (lit ''dias_de_atraso'') (map2 sub_days conclusao prevista)
       in and_then (getitem df1 (lit ''dias_de_atraso'')) (\<lambda>dias.
          Inr (loc_set df1 (map lt_zero dias) (lit ''dias_de_atraso'') (Num 0)))))"

text \<open>\<open>tipo_tarefa\<close> and \<open>mes_conclusao\<close>.\<close>

definition classificar_e_mes :: "library \<Rightarrow> frame \<Rightarrow> error + frame" where
  "classificar_e_mes L df =
     and_then (getitem df (lit ''nome_tarefa'')) (\<lambda>nomes.
     let df1 = setitem df (lit ''tipo_tarefa'') (map (\<lambda>c. Str (categorizar_tarefa L c)) nomes)
     in and_then (getitem df1 (lit ''data_real_conclusao'')) (\<lambda>conclusao.
        Inr (setitem df1 (lit ''mes_conclusao'') (map to_period_str conclusao))))"

definition calcular_metricas :: "library \<Rightarrow> frame \<Rightarrow> error + frame" where
  "calcular_metricas L df =
     and_then (converter_data L (lit ''data_prevista_conclusao'') df) (\<lambda>df1.
     and_then (converter_data L (lit ''data_real_conclusao'') df1) (\<lambda>df2.
     and_then (marcar_status df2) (\<lambda>df3.
     and_then (calcular_atraso df3) (\<lambda>df4.
     classificar_e_mes L df4))))"

section \<open>Filtering and the dashboard figures\<close>

text \<open>\<open>df[sel]\<close>: the rows where the boolean column \<open>sel\<close> holds.\<close>

definition keep :: "bool list \<Rightarrow> 'a list \<Rightarrow> 'a list" where
  "keep sel xs = map snd (filter fst (zip sel xs))"

definition select_rows :: "bool list \<Rightarrow> frame \<Rightarrow> frame" where
  "select_rows sel df =
     \<lparr>nrows = length (filter id sel), cols = map (\<lambda>p. (fst p, keep sel (snd p))) (cols df)\<rparr>"

definition isin :: "cell list \<Rightarrow> cell \<Rightarrow> bool" where
  "isin values c = List.member values c"

text \<open>The filter of the side bar: the rows whose client and whose assignee are among the
  selected ones.\<close>

definition filtrar :: "cell list \<Rightarrow> cell list \<Rightarrow> frame \<Rightarrow> error + frame" where
  "filtrar cliente_filtro responsavel_filtro df_analise =
     and_then (getitem df_analise (lit ''cliente'')) (\<lambda>clientes.
     and_then (getitem df_analise (lit ''responsavel'')) (\<lambda>responsaveis.
     Inr (select_rows
            (map2 (\<and>) (map (isin cliente_filtro) clientes) (map (isin responsavel_filtro) responsaveis))
            df_analise)))"

text \<open>Numbers that Python computes in floating point are modelled as exact rationals.\<close>

definition eq_text :: "texto \<Rightarrow> cell \<Rightarrow> bool" where
  "eq_text s c = (c = Str s)"

definition taxa_no_prazo :: "frame \<Rightarrow> error + rat" where
  "taxa_no_prazo df_filtrado =
     (if nrows df_filtrado > 0
      then and_then (getitem df_filtrado (lit ''status_prazo'')) (\<lambda>status.
             Inr (of_nat (nrows (select_rows (map (eq_text (lit ''No Prazo'')) status) df_filtrado))
                    / of_nat (nrows df_filtrado) * 100))
      else Inr 0)"

text \<open>\<open>Series.mean()\<close> skips the missing cells and is missing itself (\<open>NaN\<close>, shown as
  \<open>N/A\<close>) when no number is left.\<close>

fun numbers :: "cell list \<Rightarrow> int list" where
  "numbers [] = []"
| "numbers (Num n # cs) = n # numbers cs"
| "numbers (c # cs) = numbers cs"

definition mean :: "cell list \<Rightarrow> rat option" where
  "mean cs =
     (let xs = numbers cs
      in if xs = [] then None else Some (of_int (sum_list xs) / of_nat (length xs)))"

definition media_atraso :: "frame \<Rightarrow> error + rat option" where
  "media_atraso df_filtrado =
     and_then (getitem df_filtrado (lit ''dias_de_atraso'')) (\<lambda>dias.
     and_then (getitem (select_rows (map gt_zero dias) df_filtrado) (lit ''dias_de_atraso''))
       (\<lambda>atrasos. Inr (mean atrasos)))"

text \<open>
  \<open>groupby(name)\<close> forms one group for every value of the column that is not missing.
  A grouped result is modelled as the finite map from the group's key to its figure; the
  order in which pandas lists the groups is not part of the model.
\<close>

definition group_keys :: "cell list \<Rightarrow> cell list" where
  "group_keys ks = remdups (filter (\<lambda>k. \<not> isna k) ks)"

definition groupby_size :: "texto \<Rightarrow> frame \<Rightarrow> error + (cell \<rightharpoonup> nat)" where
  "groupby_size name df =
     and_then (getitem df name) (\<lambda>ks.
     Inr (map_of (map (\<lambda>k. (k, length (filter (\<lambda>x. x = k) ks))) (group_keys ks))))"

text \<open>\<open>lambda x: (x == 'No Prazo').sum() / len(x) * 100\<close>, applied to the statuses of a
  group, which is never empty.\<close>

definition taxa_do_grupo :: "cell list \<Rightarrow> rat" where
  "taxa_do_grupo x =
     of_nat (length (filter (eq_text (lit ''No Prazo'')) x)) / of_nat (length x) * 100"

definition groupby_taxa :: "texto \<Rightarrow> frame \<Rightarrow> error + (cell \<rightharpoonup> rat)" where
  "groupby_taxa name df =
     and_then (getitem df name) (\<lambda>ks.
     and_then (getitem df (lit ''status_prazo'')) (\<lambda>status.
     Inr (map_of (map (\<lambda>k. (k, taxa_do_grupo (map snd (filter (\<lambda>p. fst p = k) (zip ks status)))))
                   (group_keys ks)))))"

definition df_tarefas_resp :: "frame \<Rightarrow> error + (cell \<rightharpoonup> nat)" where
  "df_tarefas_resp df_filtrado = groupby_size (lit ''responsavel'') df_filtrado"

definition df_prazo_resp :: "frame \<Rightarrow> error + (cell \<rightharpoonup> rat)" where
  "df_prazo_resp df_filtrado =
     and_then (getitem df_filtrado (lit ''status_prazo'')) (\<lambda>status.
     groupby_taxa (lit ''responsavel'')
       (select_rows (map (\<lambda>c. \<not> eq_text (lit ''Pendente'') c) status) df_filtrado))"

definition df_atraso_tipo :: "frame \<Rightarrow> error + (cell \<rightharpoonup> nat)" where
  "df_atraso_tipo df_filtrado =
     and_then (getitem df_filtrado (lit ''status_prazo'')) (\<lambda>status.
     groupby_size (lit ''tipo_tarefa'')
       (select_rows (map (eq_text (lit ''Em Atraso'')) status) df_filtrado))"

text \<open>The rows are sorted by month before the grouping, which reads the month column
  but does not change the figure of any month.\<close>

definition df_evolucao :: "frame \<Rightarrow> error + (cell \<rightharpoonup> rat)" where
  "df_evolucao df_filtrado =
     and_then (getitem df_filtrado (lit ''status_prazo'')) (\<lambda>status.
     let df_temporal = select_rows (map (\<lambda>c. \<not> eq_text (lit ''Pendente'') c) status) df_filtrado
     in and_then (getitem df_temporal (lit ''mes_conclusao'')) (\<lambda>meses.
        groupby_taxa (lit ''mes_conclusao'') df_temporal))"

text \<open>The figures of the dashboard, computed in the order of the main script.\<close>

record resumo =
  total :: nat
  taxa :: rat
  media :: "rat option"
  tarefas_resp :: "cell \<rightharpoonup> nat"
  prazo_resp :: "cell \<rightharpoonup> rat"
  atraso_tipo :: "cell \<rightharpoonup> nat"
  evolucao :: "cell \<rightharpoonup> rat"

definition summarize :: "frame \<Rightarrow> error + resumo" where
  "summarize df_filtrado =
     and_then (taxa_no_prazo df_filtrado) (\<lambda>t.
     and_then (media_atraso df_filtrado) (\<lambda>m.
     and_then (df_tarefas_resp df_filtrado) (\<lambda>tr.
     and_then (df_prazo_resp df_filtrado) (\<lambda>pr.
     and_then (df_atraso_tipo df_filtrado) (\<lambda>ati.
     and_then (df_evolucao df_filtrado) (\<lambda>ev.
     Inr \<lparr>total = nrows df_filtrado, taxa = t, media = m, tarefas_resp = tr,
          prazo_resp = pr, atraso_tipo = ati, evolucao = ev\<rparr>))))))"

section \<open>The metrics of one row\<close>

text \<open>What the statements of \<open>calcular_metricas\<close> leave in one row, as functions of the
  row's completion and due timestamps. The lemmas below show that the columns written by
  \<open>calcular_metricas\<close> are these functions, row by row.\<close>

definition status_of :: "cell \<Rightarrow> cell \<Rightarrow> cell" where
  "status_of r p =
     (if isna r then Str (lit ''Pendente'')
      else if gt_cell r p then Str (lit ''Em Atraso'') else Str (lit ''No Prazo''))"

definition atraso_of :: "cell \<Rightarrow> cell \<Rightarrow> cell" where
  "atraso_of r p = (if lt_zero (sub_days r p) then Num 0 else sub_days r p)"

text \<open>A frame is \<open>enriched\<close> when its date columns hold timestamps or missing values and
  its status and delay columns are these functions of them, row by row. The frame
  returned by \<open>calcular_metricas\<close> is enriched, and so is every selection of its rows.\<close>

definition is_date :: "cell \<Rightarrow> bool" where
  "is_date c = (case c of NA \<Rightarrow> True | Stamp t \<Rightarrow> True | _ \<Rightarrow> False)"

definition enriched :: "frame \<Rightarrow> bool" where
  "enriched df \<longleftrightarrow>
     wf_frame df \<and>
     (case (map_of (cols df) (lit ''data_real_conclusao''),
            map_of (cols df) (lit ''data_prevista_conclusao'')) of
        (Some R, Some P) \<Rightarrow>
          list_all is_date R \<and> list_all is_date P \<and>
          map_of (cols df) (lit ''status_prazo'') = Some (map2 status_of R P) \<and>
          map_of (cols df) (lit ''dias_de_atraso'') = Some (map2 atraso_of R P) \<and>
          map_of (cols df) (lit ''mes_conclusao'') = Some (map to_period_str R) \<and>
          map_of (cols df) (lit ''tipo_tarefa'') \<noteq> None \<and>
          map_of (cols df) (lit ''nome_tarefa'') \<noteq> None
      | _ \<Rightarrow> False)"

section \<open>The mean delay as the specification words it\<close>

text \<open>The average of \<open>dias_de_atraso\<close> over the rows whose status is Em Atraso. The
  program computes \<open>media_atraso\<close> above; this definition serves the comparison.\<close>

definition media_dos_atrasados :: "frame \<Rightarrow> error + rat option" where
  "media_dos_atrasados df_filtrado =
     and_then (getitem df_filtrado (lit ''status_prazo'')) (\<lambda>status.
     and_then (getitem (select_rows (map (eq_text (lit ''Em Atraso'')) status) df_filtrado)
                 (lit ''dias_de_atraso''))
       (\<lambda>atrasos. Inr (mean atrasos)))"

section \<open>A library for the examples\<close>

text \<open>
  The examples need the three library functions on their inputs.
  \<^item> \<open>lower_latin1\<close> agrees with \<open>str.lower\<close> on every text whose code points are
    below 256: it maps \<open>A..Z\<close> and the accented capitals 192..222 (without the
    multiplication sign 215) to the code point 32 above.
  \<^item> \<open>str_nan\<close> agrees with \<open>str\<close> on a missing value, the only cell that is not a text
    in the name columns of the examples.
  \<^item> \<open>parse_iso\<close> reads a column as \<open>pd.to_datetime\<close> does when the first value that is
    not missing is a text \<open>YYYY-MM-DD\<close> or \<open>YYYY-MM-DD HH:MM:SS\<close>: that value fixes
    the layout of the column, the texts of a valid date (and time) in that layout are
    read, and every other text is read as no date.
\<close>

definition lower_latin1 :: "texto \<Rightarrow> texto" where
  "lower_latin1 s =
     map (\<lambda>n. if (65 \<le> n \<and> n \<le> 90) \<or> (192 \<le> n \<and> n \<le> 222 \<and> n \<noteq> 215) then n + 32 else n) s"

definition str_nan :: "cell \<Rightarrow> texto" where
  "str_nan c = lit ''nan''"

definition days_from_civil :: "int \<Rightarrow> int \<Rightarrow> int \<Rightarrow> int" where
  "days_from_civil y m d =
     (let y1 = y - (if m \<le> 2 then 1 else 0);
          era = y1 div 400;
          yoe = y1 mod 400;
          doy = (153 * (if m > 2 then m - 3 else m + 9) + 2) div 5 + d - 1;
          doe = yoe * 365 + yoe div 4 - yoe div 100 + doy
      in era * 146097 + doe - 719468)"

definition is_digit :: "nat \<Rightarrow> bool" where
  "is_digit c = (48 \<le> c \<and> c \<le> 57)"

definition number_of :: "texto \<Rightarrow> int option" where
  "number_of s =
     (if s \<noteq> [] \<and> list_all is_digit s
      then Some (foldl (\<lambda>a c. 10 * a + (int c - 48)) 0 s) else None)"

definition days_in_month :: "int \<Rightarrow> int \<Rightarrow> int" where
  "days_in_month y m =
     (if m = 2 then (if y mod 4 = 0 \<and> (y mod 100 \<noteq> 0 \<or> y mod 400 = 0) then 29 else 28)
      else if m = 4 \<or> m = 6 \<or> m = 9 \<or> m = 11 then 30 else 31)"

text \<open>The day number of a text \<open>YYYY-MM-DD\<close> (45 is the hyphen).\<close>

definition parse_date :: "texto \<Rightarrow> int option" where
  "parse_date s =
     (if length s = 10 \<and> s ! 4 = 45 \<and> s ! 7 = 45
      then (case (number_of (take 4 s), number_of (take 2 (drop 5 s)), number_of (drop 8 s)) of
              (Some y, Some m, Some d) \<Rightarrow>
                if 1 \<le> m \<and> m \<le> 12 \<and> 1 \<le> d \<and> d \<le> days_in_month y m
                then Some (days_from_civil y m d) else None
            | _ \<Rightarrow> None)
      else None)"

text \<open>The nanoseconds of a text \<open>HH:MM:SS\<close> (58 is the colon).\<close>

definition parse_time :: "texto \<Rightarrow> int option" where
  "parse_time s =
     (if length s = 8 \<and> s ! 2 = 58 \<and> s ! 5 = 58
      then (case (number_of (take 2 s), number_of (take 2 (drop 3 s)), number_of (drop 6 s)) of
              (Some h, Some m, Some sec) \<Rightarrow>
                if h < 24 \<and> m < 60 \<and> sec < 60 then Some ((h * 3600 + m * 60 + sec) * 1000000000)
                else None
            | _ \<Rightarrow> None)
      else None)"

definition parse_date_only :: "cell \<Rightarrow> int option" where
  "parse_date_only c =
     (case c of Str s \<Rightarrow> map_option (\<lambda>d. d * day_ns) (parse_date s) | _ \<Rightarrow> None)"

text \<open>The timestamp of a text \<open>YYYY-MM-DD HH:MM:SS\<close> (32 is the space).\<close>

definition parse_date_time :: "cell \<Rightarrow> int option" where
  "parse_date_time c =
     (case c of
        Str s \<Rightarrow>
          (if length s = 19 \<and> s ! 10 = 32
           then (case (parse_date (take 10 s), parse_time (drop 11 s)) of
                   (Some d, Some t) \<Rightarrow> Some (d * day_ns + t)
                 | _ \<Rightarrow> None)
           else None)
      | _ \<Rightarrow> None)"

definition parse_iso :: "cell list \<Rightarrow> nat \<Rightarrow> int option" where
  "parse_iso column i =
     (case find (\<lambda>c. \<not> isna c) column of
        None \<Rightarrow> None
      | Some c0 \<Rightarrow>
          if parse_date_only c0 \<noteq> None then parse_date_only (column ! i)
          else if parse_date_time c0 \<noteq> None then parse_date_time (column ! i)
          else None)"

definition biblioteca :: library where
  "biblioteca = \<lparr>str_lower = lower_latin1, str_cell = str_nan, to_datetime_coerce = parse_iso\<rparr>"

section \<open>Example data\<close>

text \<open>Six tasks with dates without a time of day: late by five days, not completed,
  completed with a due date that is no date, completed on the due date, late by one day,
  and completed early. \<open>tabela\<close> gives them the column names of a tool's export.\<close>

definition tabela :: "texto list \<Rightarrow> frame" where
  "tabela nomes = \<lparr>nrows = 6, cols = zip nomes
     [[Str (lit ''T1''), Str (lit ''T2''), Str (lit ''T3''), Str (lit ''T4''), Str (lit ''T5''),
       Str (lit ''T6'')],
      [Str (lit ''Envio DCTF''), Str (lit ''Folha de pagamento''), Str (lit ''Balancete mensal''),
       Str (lit ''Contrato social''), Str (lit ''SPED Contribuicoes''), Str (lit ''eSocial'')],
      [Str (lit ''Acme''), Str (lit ''Acme''), Str (lit ''Beta''), Str (lit ''Beta''),
       Str (lit ''Acme''), Str (lit ''Acme'')],
      [Str (lit ''Ana''), Str (lit ''Bia''), Str (lit ''Ana''), Str (lit ''Bia''), Str (lit ''Ana''),
       Str (lit ''Ana'')],
      [Str (lit ''2024-01-10''), Str (lit ''2024-01-10''), Str (lit ''a definir''),
       Str (lit ''2024-03-05''), Str (lit ''2024-03-05''), Str (lit ''2024-03-10'')],
      [Str (lit ''2024-01-15''), NA, Str (lit ''2024-02-29''), Str (lit ''2024-03-05''),
       Str (lit ''2024-03-06''), Str (lit ''2024-03-01'')]]\<rparr>"

definition tarefas_gclick :: frame where
  "tarefas_gclick = tabela (map fst colunas_gclick)"

definition tarefas_onvio :: frame where
  "tarefas_onvio = tabela (map fst colunas_onvio)"

text \<open>The frame that \<open>calcular_metricas\<close> makes of the adapted G-Click export.\<close>

definition analise_gclick :: frame where
  "analise_gclick = \<lparr>nrows = 6, cols =
     [(lit ''id_tarefa'',
         [Str (lit ''T1''), Str (lit ''T2''), Str (lit ''T3''), Str (lit ''T4''), Str (lit ''T5''),
          Str (lit ''T6'')]),
      (lit ''nome_tarefa'',
         [Str (lit ''Envio DCTF''), Str (lit ''Folha de pagamento''), Str (lit ''Balancete mensal''),
          Str (lit ''Contrato social''), Str (lit ''SPED Contribuicoes''), Str (lit ''eSocial'')]),
      (lit ''cliente'',
         [Str (lit ''Acme''), Str (lit ''Acme''), Str (lit ''Beta''), Str (lit ''Beta''),
          Str (lit ''Acme''), Str (lit ''Acme'')]),
      (lit ''responsavel'',
         [Str (lit ''Ana''), Str (lit ''Bia''), Str (lit ''Ana''), Str (lit ''Bia''), Str (lit ''Ana''),
          Str (lit ''Ana'')]),
      (lit ''data_prevista_conclusao'',
         [Stamp (19732 * day_ns), Stamp (19732 * day_ns), NA, Stamp (19787 * day_ns),
          Stamp (19787 * day_ns), Stamp (19792 * day_ns)]),
      (lit ''data_real_conclusao'',
         [Stamp (19737 * day_ns), NA, Stamp (19782 * day_ns), Stamp (19787 * day_ns),
          Stamp (19788 * day_ns), Stamp (19783 * day_ns)]),
      (lit ''origem_ferramenta'',
         [Str (lit ''G-Click''), Str (lit ''G-Click''), Str (lit ''G-Click''), Str (lit ''G-Click''),
          Str (lit ''G-Click''), Str (lit ''G-Click'')]),
      (lit ''status_prazo'',
         [Str (lit ''Em Atraso''), Str (lit ''Pendente''), Str (lit ''No Prazo''),
          Str (lit ''No Prazo''), Str (lit ''Em Atraso''), Str (lit ''No Prazo'')]),
      (lit ''dias_de_atraso'', [Num 5, NA, NA, Num 0, Num 1, Num 0]),
      (lit ''tipo_tarefa'',
         [Str (lit ''Fiscal''), Str (lit ''Depto. Pessoal''), Str (lit ''Cont'' @ [225] @ lit ''bil''),
          Str (lit ''Outros''), Str (lit ''Fiscal''), Str (lit ''Depto. Pessoal'')]),
      (lit ''mes_conclusao'',
         [Str (lit ''2024-01''), Str (lit ''NaT''), Str (lit ''2024-02''), Str (lit ''2024-03''),
          Str (lit ''2024-03''), Str (lit ''2024-03'')])]\<rparr>"

text \<open>The same export without its column \<open>Task ID\<close>, and without its column
  \<open>Due Date\<close>.\<close>

definition tarefas_sem_id :: frame where
  "tarefas_sem_id =
     \<lparr>nrows = 6, cols = filter (\<lambda>p. fst p \<noteq> lit ''Task ID'') (cols tarefas_gclick)\<rparr>"

definition tarefas_sem_prazo :: frame where
  "tarefas_sem_prazo =
     \<lparr>nrows = 6, cols = filter (\<lambda>p. fst p \<noteq> lit ''Due Date'') (cols tarefas_gclick)\<rparr>"

text \<open>An export of Onvio whose dates carry a time of day: a task due on 2024-03-05 and
  completed on that day at 15:30, a task due on 2024-03-05 at 23:59:59 and completed the
  next morning at 08:00, and a task completed two days after its due date.\<close>

definition processos_onvio :: frame where
  "processos_onvio = \<lparr>nrows = 3, cols =
     [(lit ''ProcessoID'', [Str (lit ''P1''), Str (lit ''P2''), Str (lit ''P3'')]),
      (lit ''Descricao'',
         [Str (lit ''Concilia'' @ [231, 227] @ lit ''o banc'' @ [225] @ lit ''ria''),
          Str (lit ''Rescis'' @ [227] @ lit ''o''), Str (lit ''Apuracao de imposto'')]),
      (lit ''NomeCliente'', [Str (lit ''Acme''), Str (lit ''Beta''), Str (lit ''Acme'')]),
      (lit ''Executor'', [Str (lit ''Ana''), Str (lit ''Bia''), Str (lit ''Ana'')]),
      (lit ''PrazoFatal'',
         [Str (lit ''2024-03-05 00:00:00''), Str (lit ''2024-03-05 23:59:59''),
          Str (lit ''2024-03-05 00:00:00'')]),
      (lit ''DataFinalizacao'',
         [Str (lit ''2024-03-05 15:30:00''), Str (lit ''2024-03-06 08:00:00''),
          Str (lit ''2024-03-07 00:00:00'')])]\<rparr>"

definition analise_onvio :: frame where
  "analise_onvio = \<lparr>nrows = 3, cols =
     [(lit ''id_tarefa'', [Str (lit ''P1''), Str (lit ''P2''), Str (lit ''P3'')]),
      (lit ''nome_tarefa'',
         [Str (lit ''Concilia'' @ [231, 227] @ lit ''o banc'' @ [225] @ lit ''ria''),
          Str (lit ''Rescis'' @ [227] @ lit ''o''), Str (lit ''Apuracao de imposto'')]),
      (lit ''cliente'', [Str (lit ''Acme''), Str (lit ''Beta''), Str (lit ''Acme'')]),
      (lit ''responsavel'', [Str (lit ''Ana''), Str (lit ''Bia''), Str (lit ''Ana'')]),
      (lit ''data_prevista_conclusao'',
         [Stamp (19787 * day_ns), Stamp (19787 * day_ns + 86399000000000), Stamp (19787 * day_ns)]),
      (lit ''data_real_conclusao'',
         [Stamp (19787 * day_ns + 55800000000000), Stamp (19788 * day_ns + 28800000000000),
          Stamp (19789 * day_ns)]),
      (lit ''origem_ferramenta'', [Str (lit ''Onvio''), Str (lit ''Onvio''), Str (lit ''Onvio'')]),
      (lit ''status_prazo'',
         [Str (lit ''Em Atraso''), Str (lit ''Em Atraso''), Str (lit ''Em Atraso'')]),
      (lit ''dias_de_atraso'', [Num 0, Num 0, Num 2]),
      (lit ''tipo_tarefa'',
         [Str (lit ''Cont'' @ [225] @ lit ''bil''), Str (lit ''Depto. Pessoal''), Str (lit ''Fiscal'')]),
      (lit ''mes_conclusao'', [Str (lit ''2024-03''), Str (lit ''2024-03''), Str (lit ''2024-03'')])]\<rparr>"

definition nome_folha_das :: cell where
  "nome_folha_das = Str (lit ''FOLHA e DAS 01/2024'')"


section \<open>Texts\<close>

lemma lit_eq_iff [simp]: "lit a = lit b \<longleftrightarrow> a = b"
  by (simp add: lit_def inj_map_eq_map[OF inj_of_char])

lemma starts_with_iff: "starts_with k s \<longleftrightarrow> (\<exists>q. s = k @ q)"
  by (induction k s rule: starts_with.induct) auto

lemma str_in_iff: "str_in k s \<longleftrightarrow> (\<exists>p q. s = p @ k @ q)"
proof (induction s)
  case Nil
  then show ?case by auto
next
  case (Cons c cs)
  show ?case
  proof
    assume "str_in k (c # cs)"
    then consider "starts_with k (c # cs)" | "str_in k cs" by auto
    then show "\<exists>p q. c # cs = p @ k @ q"
    proof cases
      case 1
      then obtain q where "c # cs = k @ q" by (auto simp: starts_with_iff)
      then have "c # cs = [] @ k @ q" by simp
      then show ?thesis by blast
    next
      case 2
      then obtain p q where "cs = p @ k @ q" using Cons.IH by auto
      then have "c # cs = (c # p) @ k @ q" by simp
      then show ?thesis by blast
    qed
  next
    assume "\<exists>p q. c # cs = p @ k @ q"
    then obtain p q where pq: "c # cs = p @ k @ q" by auto
    show "str_in k (c # cs)"
    proof (cases p)
      case Nil
      then have "starts_with k (c # cs)" using pq by (auto simp: starts_with_iff)
      then show ?thesis by simp
    next
      case (Cons a p')
      then have "cs = p' @ k @ q" using pq by simp
      then have "str_in k cs" using Cons.IH by blast
      then show ?thesis by simp
    qed
  qed
qed

lemma any_in_iff: "any_in ks s \<longleftrightarrow> (\<exists>k \<in> set ks. \<exists>p q. s = p @ k @ q)"
  by (simp add: any_in_def list_ex_iff str_in_iff)

section \<open>The classifier\<close>

lemma labels_distinct:
  "lit ''Fiscal'' \<noteq> lit ''Cont'' @ [225] @ lit ''bil''"
  "lit ''Fiscal'' \<noteq> lit ''Depto. Pessoal''"
  "lit ''Fiscal'' \<noteq> lit ''Outros''"
  "lit ''Cont'' @ [225] @ lit ''bil'' \<noteq> lit ''Depto. Pessoal''"
  "lit ''Cont'' @ [225] @ lit ''bil'' \<noteq> lit ''Outros''"
  "lit ''Depto. Pessoal'' \<noteq> lit ''Outros''"
  by (simp_all add: lit_def)

theorem categorizar_tarefa_total_priority:
  fixes L :: library and c :: cell
  defines "nome \<equiv> str_lower L (case c of Str s \<Rightarrow> s | _ \<Rightarrow> str_cell L c)"
  defines "fiscal \<equiv> \<exists>k \<in> {lit ''dctf'', lit ''sped'', lit ''fiscal'', lit ''imposto'', lit ''das''}.
                       \<exists>p q. nome = p @ k @ q"
  defines "contabil \<equiv> \<exists>k \<in> {lit ''balancete'', lit ''cont'' @ [225] @ lit ''bil'',
                               lit ''concilia'' @ [231, 227] @ lit ''o''}.
                       \<exists>p q. nome = p @ k @ q"
  defines "pessoal \<equiv> \<exists>k \<in> {lit ''folha'', lit ''admiss'' @ [227] @ lit ''o'',
                              lit ''rescis'' @ [227] @ lit ''o'', lit ''esocial''}.
                       \<exists>p q. nome = p @ k @ q"
  shows
    "categorizar_tarefa L c \<in>
       {lit ''Fiscal'', lit ''Cont'' @ [225] @ lit ''bil'', lit ''Depto. Pessoal'', lit ''Outros''} \<and>
     (categorizar_tarefa L c = lit ''Fiscal'' \<longleftrightarrow> fiscal) \<and>
     (categorizar_tarefa L c = lit ''Cont'' @ [225] @ lit ''bil'' \<longleftrightarrow> \<not> fiscal \<and> contabil) \<and>
     (categorizar_tarefa L c = lit ''Depto. Pessoal'' \<longleftrightarrow> \<not> fiscal \<and> \<not> contabil \<and> pessoal) \<and>
     (categorizar_tarefa L c = lit ''Outros'' \<longleftrightarrow> \<not> fiscal \<and> \<not> contabil \<and> \<not> pessoal) \<and>
     (fiscal \<and> pessoal \<longrightarrow> categorizar_tarefa L c = lit ''Fiscal'')"
proof -
  have nome: "str_lower L (py_str L c) = nome"
    by (simp add: nome_def py_str_def)
  have f: "any_in [lit ''dctf'', lit ''sped'', lit ''fiscal'', lit ''imposto'', lit ''das''] nome
           \<longleftrightarrow> fiscal"
    unfolding fiscal_def any_in_iff by simp
  have k: "any_in [lit ''balancete'', lit ''cont'' @ [225] @ lit ''bil'',
                   lit ''concilia'' @ [231, 227] @ lit ''o''] nome \<longleftrightarrow> contabil"
    unfolding contabil_def any_in_iff by simp
  have p: "any_in [lit ''folha'', lit ''admiss'' @ [227] @ lit ''o'',
                   lit ''rescis'' @ [227] @ lit ''o'', lit ''esocial''] nome \<longleftrightarrow> pessoal"
    unfolding pessoal_def any_in_iff by simp
  show ?thesis
    unfolding categorizar_tarefa_def Let_def nome f k p
    using labels_distinct by auto
qed



theorem categorizar_tarefa_total_priority_witness:
  "(\<exists>k \<in> {lit ''dctf'', lit ''sped'', lit ''fiscal'', lit ''imposto'', lit ''das''}.
      \<exists>p q. str_lower biblioteca (lit ''FOLHA e DAS 01/2024'') = p @ k @ q) \<and>
   (\<exists>k \<in> {lit ''folha'', lit ''admiss'' @ [227] @ lit ''o'', lit ''rescis'' @ [227] @ lit ''o'',
           lit ''esocial''}.
      \<exists>p q. str_lower biblioteca (lit ''FOLHA e DAS 01/2024'') = p @ k @ q) \<and>
   categorizar_tarefa biblioteca nome_folha_das = lit ''Fiscal''"
proof -
  have "any_in [lit ''dctf'', lit ''sped'', lit ''fiscal'', lit ''imposto'', lit ''das'']
          (str_lower biblioteca (lit ''FOLHA e DAS 01/2024''))"
    by code_simp
  then have f: "\<exists>k \<in> {lit ''dctf'', lit ''sped'', lit ''fiscal'', lit ''imposto'', lit ''das''}.
      \<exists>p q. str_lower biblioteca (lit ''FOLHA e DAS 01/2024'') = p @ k @ q"
    unfolding any_in_iff by simp
  have "any_in [lit ''folha'', lit ''admiss'' @ [227] @ lit ''o'', lit ''rescis'' @ [227] @ lit ''o'',
           lit ''esocial''] (str_lower biblioteca (lit ''FOLHA e DAS 01/2024''))"
    by code_simp
  then have p: "\<exists>k \<in> {lit ''folha'', lit ''admiss'' @ [227] @ lit ''o'', lit ''rescis'' @ [227] @ lit ''o'',
           lit ''esocial''}.
      \<exists>p q. str_lower biblioteca (lit ''FOLHA e DAS 01/2024'') = p @ k @ q"
    unfolding any_in_iff by simp
  from categorizar_tarefa_total_priority [of biblioteca nome_folha_das] f p
  have "categorizar_tarefa biblioteca nome_folha_das = lit ''Fiscal''"
    unfolding nome_folha_das_def by simp
  with f p show ?thesis by blast
qed


section \<open>Frames: reading after writing\<close>

lemma and_then_Inr_iff: "and_then r f = Inr y \<longleftrightarrow> (\<exists>x. r = Inr x \<and> f x = Inr y)"
  by (cases r) (simp_all add: and_then_def)

lemma getitem_Inr_iff: "getitem df name = Inr v \<longleftrightarrow> map_of (cols df) name = Some v"
  by (simp add: getitem_def split: option.splits)

lemma getitem_Inl_iff:
  "getitem df name = Inl e \<longleftrightarrow> map_of (cols df) name = None \<and> e = KeyError name"
  by (auto simp: getitem_def split: option.splits)

lemma map_of_setitem: "map_of (cols (setitem df name v)) = (map_of (cols df))(name \<mapsto> v)"
  by (simp add: setitem_def update_conv')

lemma nrows_setitem: "nrows (setitem df name v) = nrows df"
  by (simp add: setitem_def)

lemma map_of_loc_set:
  "map_of (cols (loc_set df sel name c)) =
   (map_of (cols df))(name \<mapsto> map2 (\<lambda>m x. if m then c else x) sel
      (case map_of (cols df) name of None \<Rightarrow> replicate (nrows df) NA | Some v \<Rightarrow> v))"
  by (simp add: loc_set_def Let_def map_of_setitem)

lemma nrows_loc_set: "nrows (loc_set df sel name c) = nrows df"
  by (simp add: loc_set_def Let_def nrows_setitem)

lemma wf_frame_length:
  "wf_frame df \<Longrightarrow> map_of (cols df) name = Some v \<Longrightarrow> length v = nrows df"
  by (auto simp: wf_frame_def list_all_iff dest: map_of_SomeD)

lemma wf_frame_setitem:
  assumes "wf_frame df" and "length v = nrows df"
  shows "wf_frame (setitem df name v)"
proof -
  have "set (AList.update name v al) \<subseteq> insert (name, v) (set al)" for al
    by (induction al) auto
  then have "set (AList.update name v (cols df)) \<subseteq> insert (name, v) (set (cols df))" .
  then have "list_all (\<lambda>p. length (snd p) = nrows df) (AList.update name v (cols df))"
    using assms by (auto simp: wf_frame_def list_all_iff)
  then show ?thesis
    using assms by (simp add: wf_frame_def setitem_def distinct_update)
qed

section \<open>The date conversion\<close>

lemma length_to_datetime: "length (to_datetime L column) = length column"
  by (simp add: to_datetime_def)

lemma nth_to_datetime:
  "i < length column \<Longrightarrow>
   to_datetime L column ! i =
     (case column ! i of
        NA \<Rightarrow> NA
      | _ \<Rightarrow> (case to_datetime_coerce L column i of None \<Rightarrow> NA | Some t \<Rightarrow> Stamp t))"
  by (auto simp: to_datetime_def split: cell.splits option.splits)

lemma is_date_iff: "is_date c \<longleftrightarrow> c = NA \<or> (\<exists>t. c = Stamp t)"
  by (cases c) (simp_all add: is_date_def)

lemma is_date_to_datetime: "list_all is_date (to_datetime L column)"
  by (auto simp: to_datetime_def list_all_iff is_date_def split: cell.splits option.splits)

section \<open>The statements of \<open>calcular_metricas\<close>, one group at a time\<close>

lemma converter_data_Inr:
  assumes "converter_data L name df = Inr df'"
  obtains column where "map_of (cols df) name = Some column"
    and "map_of (cols df') = (map_of (cols df))(name \<mapsto> to_datetime L column)"
    and "nrows df' = nrows df"
  using assms
  by (auto simp: converter_data_def and_then_Inr_iff getitem_Inr_iff map_of_setitem nrows_setitem)

lemma status_lists:
  assumes "length R = n" "length P = n"
  shows "map2 (\<lambda>m x. if m then Str (lit ''Pendente'') else x) (map isna R)
           (map2 (\<lambda>m x. if m then Str (lit ''Em Atraso'') else x) (map2 gt_cell R P)
              (replicate n (Str (lit ''No Prazo''))))
         = map2 status_of R P"
  using assms by (auto intro!: nth_equalityI simp: status_of_def)

lemma marcar_status_Inr:
  assumes "marcar_status df = Inr df'"
    and "map_of (cols df) (lit ''data_real_conclusao'') = Some R"
    and "map_of (cols df) (lit ''data_prevista_conclusao'') = Some P"
    and "length R = nrows df" "length P = nrows df"
  shows "map_of (cols df') = (map_of (cols df))(lit ''status_prazo'' \<mapsto> map2 status_of R P)"
    and "nrows df' = nrows df"
proof -
  have eq: "df' = loc_set (loc_set (setitem_scalar df (lit ''status_prazo'') (Str (lit ''No Prazo'')))
                       (map2 gt_cell R P) (lit ''status_prazo'') (Str (lit ''Em Atraso'')))
                 (map isna R) (lit ''status_prazo'') (Str (lit ''Pendente''))"
    using assms(1,2,3)
    by (simp add: marcar_status_def Let_def setitem_scalar_def and_then_def getitem_def
        map_of_setitem map_of_loc_set)
  show "nrows df' = nrows df"
    by (simp add: eq nrows_loc_set nrows_setitem setitem_scalar_def)
  show "map_of (cols df') = (map_of (cols df))(lit ''status_prazo'' \<mapsto> map2 status_of R P)"
    using status_lists[OF assms(4,5)]
    by (simp add: eq map_of_loc_set map_of_setitem setitem_scalar_def nrows_setitem nrows_loc_set)
qed

lemma atraso_lists:
  assumes "length R = n" "length P = n"
  shows "map2 (\<lambda>m x. if m then Num 0 else x) (map lt_zero (map2 sub_days R P)) (map2 sub_days R P)
         = map2 atraso_of R P"
  using assms by (auto intro!: nth_equalityI simp: atraso_of_def)

lemma calcular_atraso_Inr:
  assumes "calcular_atraso df = Inr df'"
    and "map_of (cols df) (lit ''data_real_conclusao'') = Some R"
    and "map_of (cols df) (lit ''data_prevista_conclusao'') = Some P"
    and "length R = nrows df" "length P = nrows df"
  shows "map_of (cols df') = (map_of (cols df))(lit ''dias_de_atraso'' \<mapsto> map2 atraso_of R P)"
    and "nrows df' = nrows df"
    and "\<not> list_ex (\<lambda>p. sub_overflows (fst p) (snd p)) (zip R P)"
proof -
  show no: "\<not> list_ex (\<lambda>p. sub_overflows (fst p) (snd p)) (zip R P)"
    using assms(1,2,3)
    by (auto simp: calcular_atraso_def and_then_def getitem_def split: if_splits)
  have eq: "df' = loc_set (setitem df (lit ''dias_de_atraso'') (map2 sub_days R P))
                    (map lt_zero (map2 sub_days R P)) (lit ''dias_de_atraso'') (Num 0)"
    using assms(1,2,3) no
    by (simp add: calcular_atraso_def Let_def and_then_def getitem_def map_of_setitem)
  show "nrows df' = nrows df"
    by (simp add: eq nrows_loc_set nrows_setitem)
  show "map_of (cols df') = (map_of (cols df))(lit ''dias_de_atraso'' \<mapsto> map2 atraso_of R P)"
    using atraso_lists[OF assms(4,5)]
    by (simp add: eq map_of_loc_set map_of_setitem)
qed

lemma classificar_e_mes_Inr:
  assumes "classificar_e_mes L df = Inr df'"
    and "map_of (cols df) (lit ''data_real_conclusao'') = Some R"
  obtains nomes where "map_of (cols df) (lit ''nome_tarefa'') = Some nomes"
    and "map_of (cols df') = (map_of (cols df))
            (lit ''tipo_tarefa'' \<mapsto> map (\<lambda>c. Str (categorizar_tarefa L c)) nomes,
             lit ''mes_conclusao'' \<mapsto> map to_period_str R)"
    and "nrows df' = nrows df"
  using assms
  by (auto simp: classificar_e_mes_def Let_def and_then_Inr_iff getitem_Inr_iff map_of_setitem
      nrows_setitem)

lemma calcular_metricas_Inr:
  assumes wf: "wf_frame df" and run: "calcular_metricas L df = Inr df'"
  obtains pcol rcol nomes where
    "map_of (cols df) (lit ''data_prevista_conclusao'') = Some pcol"
    "map_of (cols df) (lit ''data_real_conclusao'') = Some rcol"
    "map_of (cols df) (lit ''nome_tarefa'') = Some nomes"
    "length pcol = nrows df" "length rcol = nrows df" "length nomes = nrows df"
    "nrows df' = nrows df"
    "map_of (cols df') = (map_of (cols df))
       (lit ''data_prevista_conclusao'' \<mapsto> to_datetime L pcol,
        lit ''data_real_conclusao'' \<mapsto> to_datetime L rcol,
        lit ''status_prazo'' \<mapsto> map2 status_of (to_datetime L rcol) (to_datetime L pcol),
        lit ''dias_de_atraso'' \<mapsto> map2 atraso_of (to_datetime L rcol) (to_datetime L pcol),
        lit ''tipo_tarefa'' \<mapsto> map (\<lambda>c. Str (categorizar_tarefa L c)) nomes,
        lit ''mes_conclusao'' \<mapsto> map to_period_str (to_datetime L rcol))"
    "\<not> list_ex (\<lambda>p. sub_overflows (fst p) (snd p))
         (zip (to_datetime L rcol) (to_datetime L pcol))"
proof -
  from run obtain df1 df2 df3 df4 where
    s1: "converter_data L (lit ''data_prevista_conclusao'') df = Inr df1" and
    s2: "converter_data L (lit ''data_real_conclusao'') df1 = Inr df2" and
    s3: "marcar_status df2 = Inr df3" and
    s4: "calcular_atraso df3 = Inr df4" and
    s5: "classificar_e_mes L df4 = Inr df'"
    by (auto simp: calcular_metricas_def and_then_Inr_iff)
  from s1 obtain pcol where
    p: "map_of (cols df) (lit ''data_prevista_conclusao'') = Some pcol" and
    c1: "map_of (cols df1) = (map_of (cols df))(lit ''data_prevista_conclusao'' \<mapsto> to_datetime L pcol)" and
    n1: "nrows df1 = nrows df"
    by (rule converter_data_Inr)
  from s2 obtain rcol where
    r1: "map_of (cols df1) (lit ''data_real_conclusao'') = Some rcol" and
    c2: "map_of (cols df2) = (map_of (cols df1))(lit ''data_real_conclusao'' \<mapsto> to_datetime L rcol)" and
    n2: "nrows df2 = nrows df1"
    by (rule converter_data_Inr)
  from r1 c1 have r: "map_of (cols df) (lit ''data_real_conclusao'') = Some rcol" by simp
  have lp: "length pcol = nrows df" and lr: "length rcol = nrows df"
    using wf p r by (auto dest: wf_frame_length)
  let ?P = "to_datetime L pcol" and ?R = "to_datetime L rcol"
  have R2: "map_of (cols df2) (lit ''data_real_conclusao'') = Some ?R"
    and P2: "map_of (cols df2) (lit ''data_prevista_conclusao'') = Some ?P"
    by (simp_all add: c2 c1)
  have l2: "length ?R = nrows df2" "length ?P = nrows df2"
    using n2 n1 lp lr by (simp_all add: length_to_datetime)
  note m3 = marcar_status_Inr[OF s3 R2 P2 l2]
  have R3: "map_of (cols df3) (lit ''data_real_conclusao'') = Some ?R"
    and P3: "map_of (cols df3) (lit ''data_prevista_conclusao'') = Some ?P"
    by (simp_all add: m3(1) R2 P2)
  have l3: "length ?R = nrows df3" "length ?P = nrows df3"
    using m3(2) l2 by simp_all
  note m4 = calcular_atraso_Inr[OF s4 R3 P3 l3]
  have R4: "map_of (cols df4) (lit ''data_real_conclusao'') = Some ?R"
    by (simp add: m4(1) R3)
  from s5 R4 obtain nomes where
    nm4: "map_of (cols df4) (lit ''nome_tarefa'') = Some nomes" and
    c5: "map_of (cols df') = (map_of (cols df4))
            (lit ''tipo_tarefa'' \<mapsto> map (\<lambda>c. Str (categorizar_tarefa L c)) nomes,
             lit ''mes_conclusao'' \<mapsto> map to_period_str ?R)" and
    n5: "nrows df' = nrows df4"
    by (rule classificar_e_mes_Inr)
  have nm: "map_of (cols df) (lit ''nome_tarefa'') = Some nomes"
    using nm4 by (simp add: m4(1) m3(1) c2 c1)
  have ln: "length nomes = nrows df" using wf nm by (rule wf_frame_length)
  have nr: "nrows df' = nrows df" using n5 m4(2) m3(2) n2 n1 by simp
  have cols: "map_of (cols df') = (map_of (cols df))
       (lit ''data_prevista_conclusao'' \<mapsto> ?P,
        lit ''data_real_conclusao'' \<mapsto> ?R,
        lit ''status_prazo'' \<mapsto> map2 status_of ?R ?P,
        lit ''dias_de_atraso'' \<mapsto> map2 atraso_of ?R ?P,
        lit ''tipo_tarefa'' \<mapsto> map (\<lambda>c. Str (categorizar_tarefa L c)) nomes,
        lit ''mes_conclusao'' \<mapsto> map to_period_str ?R)"
    by (simp add: c5 m4(1) m3(1) c2 c1)
  show thesis
    using that[OF p r nm lp lr ln nr cols m4(3)] .
qed


section \<open>Well-formedness is kept\<close>

lemma wf_frame_loc_set:
  assumes "wf_frame df" and "length sel = nrows df"
  shows "wf_frame (loc_set df sel name c)"
proof -
  have "length (case map_of (cols df) name of None \<Rightarrow> replicate (nrows df) NA | Some v \<Rightarrow> v)
        = nrows df"
    using assms(1) by (auto split: option.splits dest: wf_frame_length)
  then show ?thesis
    using assms by (simp add: loc_set_def Let_def wf_frame_setitem)
qed

lemma wf_converter_data:
  assumes "wf_frame df" and "converter_data L name df = Inr df'"
  shows "wf_frame df'"
  using assms
  by (auto simp: converter_data_def and_then_Inr_iff getitem_Inr_iff length_to_datetime
      intro!: wf_frame_setitem dest: wf_frame_length)

lemma wf_marcar_status:
  assumes "wf_frame df" and "marcar_status df = Inr df'"
  shows "wf_frame df'"
proof -
  let ?df1 = "setitem_scalar df (lit ''status_prazo'') (Str (lit ''No Prazo''))"
  have w1: "wf_frame ?df1" and n1: "nrows ?df1 = nrows df"
    using assms(1) by (simp_all add: setitem_scalar_def wf_frame_setitem nrows_setitem)
  from assms(2) obtain R P R2 where
    R: "map_of (cols ?df1) (lit ''data_real_conclusao'') = Some R" and
    P: "map_of (cols ?df1) (lit ''data_prevista_conclusao'') = Some P" and
    R2: "map_of (cols (loc_set ?df1 (map2 gt_cell R P) (lit ''status_prazo'') (Str (lit ''Em Atraso''))))
           (lit ''data_real_conclusao'') = Some R2" and
    eq: "df' = loc_set (loc_set ?df1 (map2 gt_cell R P) (lit ''status_prazo'') (Str (lit ''Em Atraso'')))
                 (map isna R2) (lit ''status_prazo'') (Str (lit ''Pendente''))"
    by (auto simp: marcar_status_def Let_def and_then_Inr_iff getitem_Inr_iff)
  have lR: "length R = nrows df" and lP: "length P = nrows df"
    using wf_frame_length[OF w1 R] wf_frame_length[OF w1 P] n1 by simp_all
  have w2: "wf_frame (loc_set ?df1 (map2 gt_cell R P) (lit ''status_prazo'') (Str (lit ''Em Atraso'')))"
    using lR lP n1 by (intro wf_frame_loc_set[OF w1]) simp
  have "length R2 = nrows df"
    using wf_frame_length[OF w2 R2] n1 by (simp add: nrows_loc_set)
  then show ?thesis
    unfolding eq using n1 by (intro wf_frame_loc_set[OF w2]) (simp add: nrows_loc_set)
qed

lemma wf_calcular_atraso:
  assumes "wf_frame df" and "calcular_atraso df = Inr df'"
  shows "wf_frame df'"
proof -
  from assms(2) obtain R P where
    R: "map_of (cols df) (lit ''data_real_conclusao'') = Some R" and
    P: "map_of (cols df) (lit ''data_prevista_conclusao'') = Some P" and
    eq: "df' = loc_set (setitem df (lit ''dias_de_atraso'') (map2 sub_days R P))
                 (map lt_zero (map2 sub_days R P)) (lit ''dias_de_atraso'') (Num 0)"
    by (auto simp: calcular_atraso_def Let_def and_then_Inr_iff getitem_Inr_iff map_of_setitem
        split: if_splits)
  have lR: "length R = nrows df" and lP: "length P = nrows df"
    using wf_frame_length[OF assms(1)] R P by simp_all
  have w1: "wf_frame (setitem df (lit ''dias_de_atraso'') (map2 sub_days R P))"
    using lR lP by (intro wf_frame_setitem[OF assms(1)]) simp
  show ?thesis
    unfolding eq using lR lP by (intro wf_frame_loc_set[OF w1]) (simp add: nrows_setitem)
qed

lemma wf_classificar_e_mes:
  assumes "wf_frame df" and "classificar_e_mes L df = Inr df'"
  shows "wf_frame df'"
proof -
  from assms(2) obtain nomes R where
    N: "map_of (cols df) (lit ''nome_tarefa'') = Some nomes" and
    R: "map_of (cols (setitem df (lit ''tipo_tarefa'') (map (\<lambda>c. Str (categorizar_tarefa L c)) nomes)))
          (lit ''data_real_conclusao'') = Some R" and
    eq: "df' = setitem (setitem df (lit ''tipo_tarefa'') (map (\<lambda>c. Str (categorizar_tarefa L c)) nomes))
                 (lit ''mes_conclusao'') (map to_period_str R)"
    by (auto simp: classificar_e_mes_def Let_def and_then_Inr_iff getitem_Inr_iff)
  have lN: "length nomes = nrows df" using wf_frame_length[OF assms(1) N] .
  have w1: "wf_frame (setitem df (lit ''tipo_tarefa'') (map (\<lambda>c. Str (categorizar_tarefa L c)) nomes))"
    using lN by (intro wf_frame_setitem[OF assms(1)]) simp
  have "length R = nrows df"
    using wf_frame_length[OF w1 R] by (simp add: nrows_setitem)
  then show ?thesis
    unfolding eq by (intro wf_frame_setitem[OF w1]) (simp add: nrows_setitem)
qed

lemma wf_calcular_metricas:
  assumes "wf_frame df" and "calcular_metricas L df = Inr df'"
  shows "wf_frame df'"
proof -
  from assms(2) obtain df1 df2 df3 df4 where
    s1: "converter_data L (lit ''data_prevista_conclusao'') df = Inr df1" and
    s2: "converter_data L (lit ''data_real_conclusao'') df1 = Inr df2" and
    s3: "marcar_status df2 = Inr df3" and
    s4: "calcular_atraso df3 = Inr df4" and
    s5: "classificar_e_mes L df4 = Inr df'"
    by (auto simp: calcular_metricas_def and_then_Inr_iff)
  have "wf_frame df1" using assms(1) s1 by (rule wf_converter_data)
  then have "wf_frame df2" using s2 by (rule wf_converter_data)
  then have "wf_frame df3" using s3 by (rule wf_marcar_status)
  then have "wf_frame df4" using s4 by (rule wf_calcular_atraso)
  then show ?thesis using s5 by (rule wf_classificar_e_mes)
qed

lemma calcular_metricas_enriched:
  assumes wf: "wf_frame df" and run: "calcular_metricas L df = Inr df'"
  shows "enriched df'"
proof -
  obtain pcol rcol nomes where
    "map_of (cols df) (lit ''data_prevista_conclusao'') = Some pcol"
    "map_of (cols df) (lit ''data_real_conclusao'') = Some rcol" and
    nmS: "map_of (cols df) (lit ''nome_tarefa'') = Some nomes" and
    "length pcol = nrows df" "length rcol = nrows df" "length nomes = nrows df"
    "nrows df' = nrows df" and
    cs: "map_of (cols df') = (map_of (cols df))
       (lit ''data_prevista_conclusao'' \<mapsto> to_datetime L pcol,
        lit ''data_real_conclusao'' \<mapsto> to_datetime L rcol,
        lit ''status_prazo'' \<mapsto> map2 status_of (to_datetime L rcol) (to_datetime L pcol),
        lit ''dias_de_atraso'' \<mapsto> map2 atraso_of (to_datetime L rcol) (to_datetime L pcol),
        lit ''tipo_tarefa'' \<mapsto> map (\<lambda>c. Str (categorizar_tarefa L c)) nomes,
        lit ''mes_conclusao'' \<mapsto> map to_period_str (to_datetime L rcol))" and
    "\<not> list_ex (\<lambda>p. sub_overflows (fst p) (snd p))
         (zip (to_datetime L rcol) (to_datetime L pcol))"
    by (rule calcular_metricas_Inr[OF wf run])
  have nm: "map_of (cols df) (lit ''nome_tarefa'') \<noteq> None" using nmS by simp
  show ?thesis
    unfolding enriched_def
    using wf_calcular_metricas[OF wf run] is_date_to_datetime nm
    by (simp add: cs)
qed

section \<open>Selecting rows\<close>

lemma keep_zip: "keep sel (zip xs ys) = zip (keep sel xs) (keep sel ys)"
proof (induction sel arbitrary: xs ys)
  case Nil
  then show ?case by (simp add: keep_def)
next
  case (Cons m sel)
  show ?case
  proof (cases xs)
    case Nil
    then show ?thesis by (simp add: keep_def)
  next
    case xs: (Cons x xs')
    show ?thesis
    proof (cases ys)
      case Nil
      then show ?thesis by (simp add: keep_def)
    next
      case ys: (Cons y ys')
      show ?thesis
        using Cons.IH[of xs' ys'] by (simp add: xs ys keep_def)
    qed
  qed
qed

lemma keep_map: "keep sel (map f xs) = map f (keep sel xs)"
proof (induction sel arbitrary: xs)
  case Nil
  then show ?case by (simp add: keep_def)
next
  case (Cons m sel)
  then show ?case by (cases xs) (simp_all add: keep_def)
qed

lemma keep_map2: "keep sel (map2 f xs ys) = map2 f (keep sel xs) (keep sel ys)"
  by (simp add: keep_map keep_zip)

lemma set_keep_subset: "set (keep sel xs) \<subseteq> set xs"
  by (auto simp: keep_def dest: set_zip_rightD)

lemma list_all_keep: "list_all P xs \<Longrightarrow> list_all P (keep sel xs)"
  using set_keep_subset[of sel xs] by (auto simp: list_all_iff)

lemma length_keep: "length xs = length sel \<Longrightarrow> length (keep sel xs) = length (filter id sel)"
proof (induction sel arbitrary: xs)
  case Nil
  then show ?case by (simp add: keep_def)
next
  case (Cons m sel)
  then show ?case by (cases xs) (simp_all add: keep_def)
qed

lemma keep_none: "\<not> list_ex id sel \<Longrightarrow> keep sel xs = []"
  by (auto simp: keep_def list_ex_iff filter_empty_conv dest: set_zip_leftD)

lemma map_of_select_rows:
  "map_of (cols (select_rows sel df)) name = map_option (keep sel) (map_of (cols df) name)"
proof -
  have "map_of (map (\<lambda>p. (fst p, keep sel (snd p))) al) name = map_option (keep sel) (map_of al name)"
    for al :: "(texto \<times> cell list) list"
    by (induction al) auto
  then show ?thesis by (simp add: select_rows_def)
qed

lemma nrows_select_rows: "nrows (select_rows sel df) = length (filter id sel)"
  by (simp add: select_rows_def)

lemma wf_select_rows:
  assumes "wf_frame df" and "length sel = nrows df"
  shows "wf_frame (select_rows sel df)"
proof -
  have "map fst (map (\<lambda>p. (fst p, keep sel (snd p))) (cols df)) = map fst (cols df)"
    by simp
  moreover have "list_all (\<lambda>p. length (snd p) = length (filter id sel))
                   (map (\<lambda>p. (fst p, keep sel (snd p))) (cols df))"
    using assms by (auto simp: wf_frame_def list_all_iff intro!: length_keep)
  ultimately show ?thesis
    using assms(1) by (simp add: wf_frame_def select_rows_def comp_def)
qed

lemma enriched_select_rows:
  assumes "enriched df" and "length sel = nrows df"
  shows "enriched (select_rows sel df)"
  using assms
  by (auto simp: enriched_def map_of_select_rows wf_select_rows keep_zip keep_map list_all_keep
      split: option.splits)

lemma filtrar_Inr:
  assumes "wf_frame df" and "filtrar cf rf df = Inr dff"
  obtains sel where "length sel = nrows df" and "dff = select_rows sel df"
proof -
  from assms(2) obtain cs rs where
    c: "map_of (cols df) (lit ''cliente'') = Some cs" and
    r: "map_of (cols df) (lit ''responsavel'') = Some rs" and
    eq: "dff = select_rows (map2 (\<and>) (map (isin cf) cs) (map (isin rf) rs)) df"
    by (auto simp: filtrar_def and_then_Inr_iff getitem_Inr_iff)
  have "length (map2 (\<and>) (map (isin cf) cs) (map (isin rf) rs)) = nrows df"
    using wf_frame_length[OF assms(1) c] wf_frame_length[OF assms(1) r] by simp
  then show thesis using eq by (rule that)
qed

lemma enriched_filtrar:
  assumes "enriched df" and "filtrar cf rf df = Inr dff"
  shows "enriched dff"
proof -
  have wf: "wf_frame df" using assms(1) by (simp add: enriched_def)
  obtain sel where "length sel = nrows df" and "dff = select_rows sel df"
    using wf assms(2) by (rule filtrar_Inr)
  then show ?thesis using assms(1) by (simp add: enriched_select_rows)
qed


section \<open>The metrics, row by row\<close>

lemma cell_at_Some:
  "map_of (cols df) name = Some v \<Longrightarrow> i < length v \<Longrightarrow> cell_at df name i = Some (v ! i)"
  by (simp add: cell_at_def)

lemma calcular_metricas_row:
  assumes wf: "wf_frame df" and run: "calcular_metricas L df = Inr df'" and i: "i < nrows df"
  obtains rcol pcol nomes where
    "map_of (cols df) (lit ''data_real_conclusao'') = Some rcol"
    "map_of (cols df) (lit ''data_prevista_conclusao'') = Some pcol"
    "map_of (cols df) (lit ''nome_tarefa'') = Some nomes"
    "i < length rcol" "i < length pcol" "i < length nomes"
    "nrows df' = nrows df"
    "cell_at df' (lit ''data_real_conclusao'') i = Some (to_datetime L rcol ! i)"
    "cell_at df' (lit ''data_prevista_conclusao'') i = Some (to_datetime L pcol ! i)"
    "cell_at df' (lit ''nome_tarefa'') i = Some (nomes ! i)"
    "cell_at df' (lit ''status_prazo'') i =
       Some (status_of (to_datetime L rcol ! i) (to_datetime L pcol ! i))"
    "cell_at df' (lit ''dias_de_atraso'') i =
       Some (atraso_of (to_datetime L rcol ! i) (to_datetime L pcol ! i))"
    "cell_at df' (lit ''tipo_tarefa'') i = Some (Str (categorizar_tarefa L (nomes ! i)))"
    "cell_at df' (lit ''mes_conclusao'') i = Some (to_period_str (to_datetime L rcol ! i))"
    "\<not> sub_overflows (to_datetime L rcol ! i) (to_datetime L pcol ! i)"
proof -
  obtain pcol rcol nomes where
    pr: "map_of (cols df) (lit ''data_prevista_conclusao'') = Some pcol" and
    rr: "map_of (cols df) (lit ''data_real_conclusao'') = Some rcol" and
    nm: "map_of (cols df) (lit ''nome_tarefa'') = Some nomes" and
    lp: "length pcol = nrows df" and lr: "length rcol = nrows df" and
    ln: "length nomes = nrows df" and
    nr: "nrows df' = nrows df" and
    cs: "map_of (cols df') = (map_of (cols df))
       (lit ''data_prevista_conclusao'' \<mapsto> to_datetime L pcol,
        lit ''data_real_conclusao'' \<mapsto> to_datetime L rcol,
        lit ''status_prazo'' \<mapsto> map2 status_of (to_datetime L rcol) (to_datetime L pcol),
        lit ''dias_de_atraso'' \<mapsto> map2 atraso_of (to_datetime L rcol) (to_datetime L pcol),
        lit ''tipo_tarefa'' \<mapsto> map (\<lambda>c. Str (categorizar_tarefa L c)) nomes,
        lit ''mes_conclusao'' \<mapsto> map to_period_str (to_datetime L rcol))" and
    ov: "\<not> list_ex (\<lambda>p. sub_overflows (fst p) (snd p))
         (zip (to_datetime L rcol) (to_datetime L pcol))"
    by (rule calcular_metricas_Inr[OF wf run])
  let ?r = "to_datetime L rcol ! i" and ?p = "to_datetime L pcol ! i"
  have ir: "i < length rcol" and ip: "i < length pcol" and inm: "i < length nomes"
    using i lp lr ln by simp_all
  have "(?r, ?p) \<in> set (zip (to_datetime L rcol) (to_datetime L pcol))"
    using ir ip by (auto simp: set_zip length_to_datetime intro!: exI[of _ i])
  with ov have ov': "\<not> sub_overflows ?r ?p" by (auto simp: list_ex_iff)
  have c1: "cell_at df' (lit ''data_real_conclusao'') i = Some ?r"
    using ir by (simp add: cell_at_def cs length_to_datetime)
  have c2: "cell_at df' (lit ''data_prevista_conclusao'') i = Some ?p"
    using ip by (simp add: cell_at_def cs length_to_datetime)
  have c3: "cell_at df' (lit ''nome_tarefa'') i = Some (nomes ! i)"
    using inm nm by (simp add: cell_at_def cs)
  have c4: "cell_at df' (lit ''status_prazo'') i = Some (status_of ?r ?p)"
    using ir ip by (simp add: cell_at_def cs length_to_datetime)
  have c5: "cell_at df' (lit ''dias_de_atraso'') i = Some (atraso_of ?r ?p)"
    using ir ip by (simp add: cell_at_def cs length_to_datetime)
  have c6: "cell_at df' (lit ''tipo_tarefa'') i = Some (Str (categorizar_tarefa L (nomes ! i)))"
    using inm by (simp add: cell_at_def cs)
  have c7: "cell_at df' (lit ''mes_conclusao'') i = Some (to_period_str ?r)"
    using ir by (simp add: cell_at_def cs length_to_datetime)
  show thesis
    using that[OF rr pr nm ir ip inm nr c1 c2 c3 c4 c5 c6 c7 ov'] .
qed

lemma to_datetime_nth_cases:
  "i < length column \<Longrightarrow> to_datetime L column ! i = NA \<or> (\<exists>t. to_datetime L column ! i = Stamp t)"
  by (auto simp: nth_to_datetime split: cell.splits option.splits)

lemma status_of_eq:
  "status_of r p =
     Str (if r = NA then lit ''Pendente''
          else if (\<exists>c d. r = Stamp c \<and> p = Stamp d \<and> d < c) then lit ''Em Atraso''
          else lit ''No Prazo'')"
  by (cases r; cases p) (simp_all add: status_of_def isna_def gt_cell_def)

lemma atraso_of_eq:
  "atraso_of r p =
     (case (r, p) of (Stamp c, Stamp d) \<Rightarrow> Num (max 0 ((c - d) div day_ns)) | _ \<Rightarrow> NA)"
  by (cases r; cases p) (simp_all add: atraso_of_def sub_days_def lt_zero_def max_def)

lemma day_ns_pos: "0 < day_ns"
  by (simp add: day_ns_def)

lemma whole_days_on_time: "\<not> d < c \<Longrightarrow> max 0 ((c - d) div day_ns) = 0"
proof -
  assume "\<not> d < c"
  then have "c - d \<le> 0" by simp
  then have "(c - d) div day_ns \<le> 0"
    using day_ns_pos by (rule div_nonpos_pos_le0)
  then show ?thesis by simp
qed

lemma whole_days_under_a_day: "d < c \<Longrightarrow> c - d < day_ns \<Longrightarrow> max 0 ((c - d) div day_ns) = 0"
  by (simp add: div_pos_pos_trivial)

lemma whole_days_midnight:
  assumes "c mod day_ns = 0" and "d mod day_ns = 0"
  shows "(c - d) div day_ns = c div day_ns - d div day_ns"
proof -
  have c: "c = day_ns * (c div day_ns)" and d: "d = day_ns * (d div day_ns)"
    using assms by (simp_all add: mod_eq_0_iff_dvd)
  have "c - d = day_ns * (c div day_ns - d div day_ns)"
    using c d by (simp add: right_diff_distrib)
  then show ?thesis using day_ns_pos by simp
qed

lemma midnight_later_iff:
  assumes "c mod day_ns = 0" and "d mod day_ns = 0"
  shows "d < c \<longleftrightarrow> d div day_ns < c div day_ns"
proof -
  have c: "c = day_ns * (c div day_ns)" and d: "d = day_ns * (d div day_ns)"
    using assms by (simp_all add: mod_eq_0_iff_dvd)
  have "d < c \<longleftrightarrow> day_ns * (d div day_ns) < day_ns * (c div day_ns)"
    using c d by simp
  also have "\<dots> \<longleftrightarrow> d div day_ns < c div day_ns"
    using day_ns_pos by simp
  finally show ?thesis .
qed


section \<open>The examples, evaluated\<close>

lemma wf_tarefas_gclick: "wf_frame (padronizar_gclick tarefas_gclick)"
  by code_simp

lemma nrows_tarefas_gclick: "nrows (padronizar_gclick tarefas_gclick) = 6"
  by code_simp

lemma analise_gclick_run:
  "calcular_metricas biblioteca (padronizar_gclick tarefas_gclick) = Inr analise_gclick"
  by code_simp

lemma wf_processos_onvio: "wf_frame (padronizar_onvio processos_onvio)"
  by code_simp

lemma nrows_processos_onvio: "nrows (padronizar_onvio processos_onvio) = 3"
  by code_simp

lemma analise_onvio_run:
  "calcular_metricas biblioteca (padronizar_onvio processos_onvio) = Inr analise_onvio"
  by code_simp

section \<open>Deadline status\<close>

text \<open>
  Claim C2, as stated, fails: the program compares timestamps, which carry a time of
  day, and not calendar dates. The task of the Onvio example that is due on 2024-03-05
  and completed on 2024-03-05 at 15:30 has equal due and completion dates, and its status
  is Em Atraso.
\<close>

theorem status_same_day_counterexample:
  "cell_at (padronizar_onvio processos_onvio) (lit ''data_prevista_conclusao'') 0
     = Some (Str (lit ''2024-03-05 00:00:00'')) \<and>
   cell_at (padronizar_onvio processos_onvio) (lit ''data_real_conclusao'') 0
     = Some (Str (lit ''2024-03-05 15:30:00'')) \<and>
   calcular_metricas biblioteca (padronizar_onvio processos_onvio) = Inr analise_onvio \<and>
   cell_at analise_onvio (lit ''data_prevista_conclusao'') 0 = Some (Stamp (19787 * day_ns)) \<and>
   cell_at analise_onvio (lit ''data_real_conclusao'') 0
     = Some (Stamp (19787 * day_ns + 55800000000000)) \<and>
   civil_from_days (19787 * day_ns div day_ns) = (2024, 3, 5) \<and>
   civil_from_days ((19787 * day_ns + 55800000000000) div day_ns) = (2024, 3, 5) \<and>
   cell_at analise_onvio (lit ''status_prazo'') 0 = Some (Str (lit ''Em Atraso''))"
proof -
  have "cell_at (padronizar_onvio processos_onvio) (lit ''data_prevista_conclusao'') 0
     = Some (Str (lit ''2024-03-05 00:00:00''))"
    by code_simp
  moreover have "cell_at (padronizar_onvio processos_onvio) (lit ''data_real_conclusao'') 0
     = Some (Str (lit ''2024-03-05 15:30:00''))"
    by code_simp
  moreover have "cell_at analise_onvio (lit ''data_prevista_conclusao'') 0
     = Some (Stamp (19787 * day_ns))"
    by code_simp
  moreover have "cell_at analise_onvio (lit ''data_real_conclusao'') 0
     = Some (Stamp (19787 * day_ns + 55800000000000))"
    by code_simp
  moreover have "civil_from_days (19787 * day_ns div day_ns) = (2024, 3, 5)"
    by code_simp
  moreover have "civil_from_days ((19787 * day_ns + 55800000000000) div day_ns) = (2024, 3, 5)"
    by code_simp
  moreover have "cell_at analise_onvio (lit ''status_prazo'') 0 = Some (Str (lit ''Em Atraso''))"
    by code_simp
  ultimately show ?thesis using analise_onvio_run by blast
qed

text \<open>
  Claim C2, amended. \<open>calcular_metricas\<close> keeps the rows. In every row, with \<open>r\<close> and
  \<open>p\<close> the completion and the due cell after the date conversion of the input columns
  (a timestamp, or missing): the status is Pendente when \<open>r\<close> is missing, Em Atraso when
  both are timestamps and \<open>r\<close> is the later one, and No Prazo otherwise. So it is Pendente
  exactly when the completion is missing, Em Atraso exactly when the completion timestamp
  is after the due timestamp, and No Prazo exactly when the completion is present and not
  after it. Equal timestamps give No Prazo; a completion later on the very day of the due
  timestamp gives Em Atraso; for timestamps without a time of day the status is
  Em Atraso exactly when the completion date is after the due date.
\<close>

theorem status_prazo_timestamps:
  assumes "wf_frame df" and "calcular_metricas L df = Inr df'" and "i < nrows df"
  shows
    "\<exists>rcol pcol r p s.
       map_of (cols df) (lit ''data_real_conclusao'') = Some rcol \<and>
       map_of (cols df) (lit ''data_prevista_conclusao'') = Some pcol \<and>
       i < length rcol \<and> i < length pcol \<and>
       r = (case rcol ! i of
              NA \<Rightarrow> NA
            | _ \<Rightarrow> (case to_datetime_coerce L rcol i of None \<Rightarrow> NA | Some t \<Rightarrow> Stamp t)) \<and>
       p = (case pcol ! i of
              NA \<Rightarrow> NA
            | _ \<Rightarrow> (case to_datetime_coerce L pcol i of None \<Rightarrow> NA | Some t \<Rightarrow> Stamp t)) \<and>
       nrows df' = nrows df \<and>
       cell_at df' (lit ''data_real_conclusao'') i = Some r \<and>
       cell_at df' (lit ''data_prevista_conclusao'') i = Some p \<and>
       cell_at df' (lit ''status_prazo'') i = Some (Str s) \<and>
       s = (if r = NA then lit ''Pendente''
            else if (\<exists>c d. r = Stamp c \<and> p = Stamp d \<and> d < c) then lit ''Em Atraso''
            else lit ''No Prazo'') \<and>
       (s = lit ''Pendente'' \<longleftrightarrow> r = NA) \<and>
       (s = lit ''Em Atraso'' \<longleftrightarrow> (\<exists>c d. r = Stamp c \<and> p = Stamp d \<and> d < c)) \<and>
       (s = lit ''No Prazo'' \<longleftrightarrow> (\<exists>c. r = Stamp c \<and> \<not> (\<exists>d. p = Stamp d \<and> d < c))) \<and>
       (\<forall>t. r = Stamp t \<and> p = Stamp t \<longrightarrow> s = lit ''No Prazo'') \<and>
       (\<forall>c d. r = Stamp c \<and> p = Stamp d \<and> c div day_ns = d div day_ns \<and> d < c \<longrightarrow>
              s = lit ''Em Atraso'') \<and>
       (\<forall>c d. r = Stamp c \<and> p = Stamp d \<and> c mod day_ns = 0 \<and> d mod day_ns = 0 \<longrightarrow>
              (s = lit ''Em Atraso'' \<longleftrightarrow> d div day_ns < c div day_ns))"
proof -
  obtain rcol pcol nomes where
    rr: "map_of (cols df) (lit ''data_real_conclusao'') = Some rcol" and
    pr: "map_of (cols df) (lit ''data_prevista_conclusao'') = Some pcol" and
    "map_of (cols df) (lit ''nome_tarefa'') = Some nomes" and
    ir: "i < length rcol" and ip: "i < length pcol" and "i < length nomes" and
    nr: "nrows df' = nrows df" and
    c1: "cell_at df' (lit ''data_real_conclusao'') i = Some (to_datetime L rcol ! i)" and
    c2: "cell_at df' (lit ''data_prevista_conclusao'') i = Some (to_datetime L pcol ! i)" and
    "cell_at df' (lit ''nome_tarefa'') i = Some (nomes ! i)" and
    c4: "cell_at df' (lit ''status_prazo'') i =
       Some (status_of (to_datetime L rcol ! i) (to_datetime L pcol ! i))" and
    "cell_at df' (lit ''dias_de_atraso'') i =
       Some (atraso_of (to_datetime L rcol ! i) (to_datetime L pcol ! i))" and
    "cell_at df' (lit ''tipo_tarefa'') i = Some (Str (categorizar_tarefa L (nomes ! i)))" and
    "cell_at df' (lit ''mes_conclusao'') i = Some (to_period_str (to_datetime L rcol ! i))" and
    "\<not> sub_overflows (to_datetime L rcol ! i) (to_datetime L pcol ! i)"
    by (rule calcular_metricas_row[OF assms])
  define r where "r = to_datetime L rcol ! i"
  define p where "p = to_datetime L pcol ! i"
  define s where "s = (if r = NA then lit ''Pendente''
            else if (\<exists>c d. r = Stamp c \<and> p = Stamp d \<and> d < c) then lit ''Em Atraso''
            else lit ''No Prazo'')"
  have rc: "r = NA \<or> (\<exists>t. r = Stamp t)" and pc: "p = NA \<or> (\<exists>t. p = Stamp t)"
    unfolding r_def p_def using ir ip by (simp_all add: to_datetime_nth_cases)
  have st: "cell_at df' (lit ''status_prazo'') i = Some (Str s)"
    unfolding s_def using c4 by (simp add: status_of_eq r_def p_def)
  have a: "s = lit ''Pendente'' \<longleftrightarrow> r = NA"
    by (simp add: s_def)
  have b: "s = lit ''Em Atraso'' \<longleftrightarrow> (\<exists>c d. r = Stamp c \<and> p = Stamp d \<and> d < c)"
    by (auto simp: s_def)
  have c: "s = lit ''No Prazo'' \<longleftrightarrow> (\<exists>c. r = Stamp c \<and> \<not> (\<exists>d. p = Stamp d \<and> d < c))"
    using rc by (auto simp: s_def)
  have d: "\<forall>t. r = Stamp t \<and> p = Stamp t \<longrightarrow> s = lit ''No Prazo''"
    by (auto simp: s_def)
  have e: "\<forall>c d. r = Stamp c \<and> p = Stamp d \<and> c div day_ns = d div day_ns \<and> d < c \<longrightarrow>
              s = lit ''Em Atraso''"
    by (auto simp: s_def)
  have f: "\<forall>c d. r = Stamp c \<and> p = Stamp d \<and> c mod day_ns = 0 \<and> d mod day_ns = 0 \<longrightarrow>
              (s = lit ''Em Atraso'' \<longleftrightarrow> d div day_ns < c div day_ns)"
    using midnight_later_iff by (auto simp: b)
  show ?thesis
    apply (rule exI[of _ rcol], rule exI[of _ pcol], rule exI[of _ r], rule exI[of _ p],
        rule exI[of _ s])
    using rr pr ir ip nr c1 c2 st a b c d e f
    by (simp add: r_def p_def nth_to_datetime s_def)
qed


theorem status_prazo_timestamps_witness:
  "wf_frame (padronizar_gclick tarefas_gclick) \<and>
   calcular_metricas biblioteca (padronizar_gclick tarefas_gclick) = Inr analise_gclick \<and>
   3 < nrows (padronizar_gclick tarefas_gclick) \<and>
   cell_at analise_gclick (lit ''data_real_conclusao'') 3 = Some (Stamp (19787 * day_ns)) \<and>
   cell_at analise_gclick (lit ''data_prevista_conclusao'') 3 = Some (Stamp (19787 * day_ns)) \<and>
   cell_at analise_gclick (lit ''status_prazo'') 3 = Some (Str (lit ''No Prazo''))"
proof -
  have i: "3 < nrows (padronizar_gclick tarefas_gclick)"
    by (simp add: nrows_tarefas_gclick)
  have r: "cell_at analise_gclick (lit ''data_real_conclusao'') 3 = Some (Stamp (19787 * day_ns))"
    by code_simp
  have p: "cell_at analise_gclick (lit ''data_prevista_conclusao'') 3 = Some (Stamp (19787 * day_ns))"
    by code_simp
  from status_prazo_timestamps [OF wf_tarefas_gclick analise_gclick_run i]
  have "cell_at analise_gclick (lit ''status_prazo'') 3 = Some (Str (lit ''No Prazo''))"
  proof (elim exE conjE)
    fix rcol pcol r' p' s
    assume r': "cell_at analise_gclick (lit ''data_real_conclusao'') 3 = Some r'"
      and p': "cell_at analise_gclick (lit ''data_prevista_conclusao'') 3 = Some p'"
      and s: "cell_at analise_gclick (lit ''status_prazo'') 3 = Some (Str s)"
      and eq: "\<forall>t. r' = Stamp t \<and> p' = Stamp t \<longrightarrow> s = lit ''No Prazo''"
    from r r' p p' have "r' = Stamp (19787 * day_ns)" "p' = Stamp (19787 * day_ns)"
      by simp_all
    with eq have "s = lit ''No Prazo''" by blast
    with s show ?thesis by simp
  qed
  with wf_tarefas_gclick analise_gclick_run i r p show ?thesis by blast
qed

section \<open>Days of delay\<close>

text \<open>
  Claim C3, as stated, fails: \<open>dias_de_atraso\<close> counts whole periods of 24 hours between
  two timestamps, not calendar days. The task of the Onvio example that is due on
  2024-03-05 at 23:59:59 and completed on 2024-03-06 at 08:00 is completed on the day
  after its due date; it is Em Atraso and its \<open>dias_de_atraso\<close> is 0, not 1.
\<close>

theorem dias_next_day_counterexample:
  "cell_at (padronizar_onvio processos_onvio) (lit ''data_prevista_conclusao'') 1
     = Some (Str (lit ''2024-03-05 23:59:59'')) \<and>
   cell_at (padronizar_onvio processos_onvio) (lit ''data_real_conclusao'') 1
     = Some (Str (lit ''2024-03-06 08:00:00'')) \<and>
   calcular_metricas biblioteca (padronizar_onvio processos_onvio) = Inr analise_onvio \<and>
   cell_at analise_onvio (lit ''data_prevista_conclusao'') 1
     = Some (Stamp (19787 * day_ns + 86399000000000)) \<and>
   cell_at analise_onvio (lit ''data_real_conclusao'') 1
     = Some (Stamp (19788 * day_ns + 28800000000000)) \<and>
   civil_from_days ((19787 * day_ns + 86399000000000) div day_ns) = (2024, 3, 5) \<and>
   civil_from_days ((19788 * day_ns + 28800000000000) div day_ns) = (2024, 3, 6) \<and>
   cell_at analise_onvio (lit ''status_prazo'') 1 = Some (Str (lit ''Em Atraso'')) \<and>
   cell_at analise_onvio (lit ''dias_de_atraso'') 1 = Some (Num 0)"
proof -
  have "cell_at (padronizar_onvio processos_onvio) (lit ''data_prevista_conclusao'') 1
     = Some (Str (lit ''2024-03-05 23:59:59''))"
    by code_simp
  moreover have "cell_at (padronizar_onvio processos_onvio) (lit ''data_real_conclusao'') 1
     = Some (Str (lit ''2024-03-06 08:00:00''))"
    by code_simp
  moreover have "cell_at analise_onvio (lit ''data_prevista_conclusao'') 1
     = Some (Stamp (19787 * day_ns + 86399000000000))"
    by code_simp
  moreover have "cell_at analise_onvio (lit ''data_real_conclusao'') 1
     = Some (Stamp (19788 * day_ns + 28800000000000))"
    by code_simp
  moreover have "civil_from_days ((19787 * day_ns + 86399000000000) div day_ns) = (2024, 3, 5)"
    by code_simp
  moreover have "civil_from_days ((19788 * day_ns + 28800000000000) div day_ns) = (2024, 3, 6)"
    by code_simp
  moreover have "cell_at analise_onvio (lit ''status_prazo'') 1 = Some (Str (lit ''Em Atraso''))"
    by code_simp
  moreover have "cell_at analise_onvio (lit ''dias_de_atraso'') 1 = Some (Num 0)"
    by code_simp
  ultimately show ?thesis using analise_onvio_run by blast
qed

text \<open>
  Claim C3, amended. \<open>calcular_metricas\<close> keeps the rows. In every row, with \<open>r\<close> and
  \<open>p\<close> the completion and the due cell after the date conversion of the input columns:
  when both are timestamps, \<open>dias_de_atraso\<close> is the number of whole periods of 24 hours
  from \<open>p\<close> to \<open>r\<close>, and 0 when that is negative; otherwise it is missing, in particular
  when the completion is missing. It is 0 for a row that is not Em Atraso, and also for a
  row that is Em Atraso by less than 24 hours. A completion exactly 24 hours after the due
  timestamp is Em Atraso with 1 day; for timestamps without a time of day
  \<open>dias_de_atraso\<close> is the number of calendar days from the due date to the completion
  date (0 when negative), so that a completion on the next day is Em Atraso with 1 day.
\<close>

theorem dias_de_atraso_whole_days:
  assumes "wf_frame df" and "calcular_metricas L df = Inr df'" and "i < nrows df"
  shows
    "\<exists>rcol pcol r p s a.
       map_of (cols df) (lit ''data_real_conclusao'') = Some rcol \<and>
       map_of (cols df) (lit ''data_prevista_conclusao'') = Some pcol \<and>
       i < length rcol \<and> i < length pcol \<and>
       r = (case rcol ! i of
              NA \<Rightarrow> NA
            | _ \<Rightarrow> (case to_datetime_coerce L rcol i of None \<Rightarrow> NA | Some t \<Rightarrow> Stamp t)) \<and>
       p = (case pcol ! i of
              NA \<Rightarrow> NA
            | _ \<Rightarrow> (case to_datetime_coerce L pcol i of None \<Rightarrow> NA | Some t \<Rightarrow> Stamp t)) \<and>
       nrows df' = nrows df \<and>
       cell_at df' (lit ''data_real_conclusao'') i = Some r \<and>
       cell_at df' (lit ''data_prevista_conclusao'') i = Some p \<and>
       cell_at df' (lit ''status_prazo'') i = Some (Str s) \<and>
       cell_at df' (lit ''dias_de_atraso'') i = Some a \<and>
       a = (case (r, p) of (Stamp c, Stamp d) \<Rightarrow> Num (max 0 ((c - d) div day_ns)) | _ \<Rightarrow> NA) \<and>
       (r = NA \<longrightarrow> a = NA) \<and>
       (\<forall>c d. r = Stamp c \<and> p = Stamp d \<and> s \<noteq> lit ''Em Atraso'' \<longrightarrow> a = Num 0) \<and>
       (\<forall>c d. r = Stamp c \<and> p = Stamp d \<and> d < c \<and> c - d < day_ns \<longrightarrow>
              s = lit ''Em Atraso'' \<and> a = Num 0) \<and>
       (\<forall>d. r = Stamp (d + day_ns) \<and> p = Stamp d \<longrightarrow> s = lit ''Em Atraso'' \<and> a = Num 1) \<and>
       (\<forall>c d. r = Stamp c \<and> p = Stamp d \<and> c mod day_ns = 0 \<and> d mod day_ns = 0 \<longrightarrow>
              a = Num (max 0 (c div day_ns - d div day_ns)) \<and>
              (c div day_ns = d div day_ns + 1 \<longrightarrow> s = lit ''Em Atraso'' \<and> a = Num 1))"
proof -
  obtain rcol pcol nomes where
    rr: "map_of (cols df) (lit ''data_real_conclusao'') = Some rcol" and
    pr: "map_of (cols df) (lit ''data_prevista_conclusao'') = Some pcol" and
    "map_of (cols df) (lit ''nome_tarefa'') = Some nomes" and
    ir: "i < length rcol" and ip: "i < length pcol" and "i < length nomes" and
    nr: "nrows df' = nrows df" and
    c1: "cell_at df' (lit ''data_real_conclusao'') i = Some (to_datetime L rcol ! i)" and
    c2: "cell_at df' (lit ''data_prevista_conclusao'') i = Some (to_datetime L pcol ! i)" and
    "cell_at df' (lit ''nome_tarefa'') i = Some (nomes ! i)" and
    c4: "cell_at df' (lit ''status_prazo'') i =
       Some (status_of (to_datetime L rcol ! i) (to_datetime L pcol ! i))" and
    c5: "cell_at df' (lit ''dias_de_atraso'') i =
       Some (atraso_of (to_datetime L rcol ! i) (to_datetime L pcol ! i))" and
    "cell_at df' (lit ''tipo_tarefa'') i = Some (Str (categorizar_tarefa L (nomes ! i)))" and
    "cell_at df' (lit ''mes_conclusao'') i = Some (to_period_str (to_datetime L rcol ! i))" and
    "\<not> sub_overflows (to_datetime L rcol ! i) (to_datetime L pcol ! i)"
    by (rule calcular_metricas_row[OF assms])
  define r where "r = to_datetime L rcol ! i"
  define p where "p = to_datetime L pcol ! i"
  define s where "s = (if r = NA then lit ''Pendente''
            else if (\<exists>c d. r = Stamp c \<and> p = Stamp d \<and> d < c) then lit ''Em Atraso''
            else lit ''No Prazo'')"
  define a where
    "a = (case (r, p) of (Stamp c, Stamp d) \<Rightarrow> Num (max 0 ((c - d) div day_ns)) | _ \<Rightarrow> NA)"
  have st: "cell_at df' (lit ''status_prazo'') i = Some (Str s)"
    unfolding s_def using c4 by (simp add: status_of_eq r_def p_def)
  have at: "cell_at df' (lit ''dias_de_atraso'') i = Some a"
    unfolding a_def using c5 by (simp add: atraso_of_eq r_def p_def)
  have late: "s = lit ''Em Atraso'' \<longleftrightarrow> (\<exists>c d. r = Stamp c \<and> p = Stamp d \<and> d < c)"
    by (auto simp: s_def)
  have f1: "r = NA \<longrightarrow> a = NA"
    by (simp add: a_def)
  have f2: "\<forall>c d. r = Stamp c \<and> p = Stamp d \<and> s \<noteq> lit ''Em Atraso'' \<longrightarrow> a = Num 0"
    using whole_days_on_time by (auto simp: a_def late)
  have f3: "\<forall>c d. r = Stamp c \<and> p = Stamp d \<and> d < c \<and> c - d < day_ns \<longrightarrow>
              s = lit ''Em Atraso'' \<and> a = Num 0"
    using whole_days_under_a_day by (auto simp: a_def late)
  have f4: "\<forall>d. r = Stamp (d + day_ns) \<and> p = Stamp d \<longrightarrow> s = lit ''Em Atraso'' \<and> a = Num 1"
    using day_ns_pos by (auto simp: a_def late)
  have f5: "\<forall>c d. r = Stamp c \<and> p = Stamp d \<and> c mod day_ns = 0 \<and> d mod day_ns = 0 \<longrightarrow>
              a = Num (max 0 (c div day_ns - d div day_ns)) \<and>
              (c div day_ns = d div day_ns + 1 \<longrightarrow> s = lit ''Em Atraso'' \<and> a = Num 1)"
  proof (intro allI impI, elim conjE)
    fix c d
    assume rp: "r = Stamp c" "p = Stamp d" and m: "c mod day_ns = 0" "d mod day_ns = 0"
    have a': "a = Num (max 0 (c div day_ns - d div day_ns))"
      using rp whole_days_midnight[OF m] by (simp add: a_def)
    have "s = lit ''Em Atraso'' \<and> a = Num 1" if "c div day_ns = d div day_ns + 1"
      using that a' rp midnight_later_iff[OF m] by (simp add: late)
    with a' show "a = Num (max 0 (c div day_ns - d div day_ns)) \<and>
              (c div day_ns = d div day_ns + 1 \<longrightarrow> s = lit ''Em Atraso'' \<and> a = Num 1)"
      by blast
  qed
  have req: "r = (case rcol ! i of
              NA \<Rightarrow> NA
            | _ \<Rightarrow> (case to_datetime_coerce L rcol i of None \<Rightarrow> NA | Some t \<Rightarrow> Stamp t))"
    using ir by (simp add: r_def nth_to_datetime)
  have peq: "p = (case pcol ! i of
              NA \<Rightarrow> NA
            | _ \<Rightarrow> (case to_datetime_coerce L pcol i of None \<Rightarrow> NA | Some t \<Rightarrow> Stamp t))"
    using ip by (simp add: p_def nth_to_datetime)
  have c1': "cell_at df' (lit ''data_real_conclusao'') i = Some r"
    and c2': "cell_at df' (lit ''data_prevista_conclusao'') i = Some p"
    using c1 c2 by (simp_all add: r_def p_def)
  have aeq: "a = (case (r, p) of (Stamp c, Stamp d) \<Rightarrow> Num (max 0 ((c - d) div day_ns)) | _ \<Rightarrow> NA)"
    by (simp add: a_def)
  show ?thesis
    apply (rule exI[of _ rcol], rule exI[of _ pcol], rule exI[of _ r], rule exI[of _ p],
        rule exI[of _ s], rule exI[of _ a])
    using rr pr ir ip req peq nr c1' c2' st at aeq f1 f2 f3 f4 f5
    by blast
qed

theorem dias_de_atraso_whole_days_witness:
  "wf_frame (padronizar_gclick tarefas_gclick) \<and>
   calcular_metricas biblioteca (padronizar_gclick tarefas_gclick) = Inr analise_gclick \<and>
   4 < nrows (padronizar_gclick tarefas_gclick) \<and>
   cell_at analise_gclick (lit ''data_prevista_conclusao'') 4 = Some (Stamp (19787 * day_ns)) \<and>
   cell_at analise_gclick (lit ''data_real_conclusao'') 4 = Some (Stamp (19787 * day_ns + day_ns)) \<and>
   cell_at analise_gclick (lit ''status_prazo'') 4 = Some (Str (lit ''Em Atraso'')) \<and>
   cell_at analise_gclick (lit ''dias_de_atraso'') 4 = Some (Num 1)"
proof -
  have i: "4 < nrows (padronizar_gclick tarefas_gclick)"
    by (simp add: nrows_tarefas_gclick)
  have p: "cell_at analise_gclick (lit ''data_prevista_conclusao'') 4 = Some (Stamp (19787 * day_ns))"
    by code_simp
  have r: "cell_at analise_gclick (lit ''data_real_conclusao'') 4
             = Some (Stamp (19787 * day_ns + day_ns))"
    by code_simp
  from dias_de_atraso_whole_days [OF wf_tarefas_gclick analise_gclick_run i]
  have "cell_at analise_gclick (lit ''status_prazo'') 4 = Some (Str (lit ''Em Atraso'')) \<and>
        cell_at analise_gclick (lit ''dias_de_atraso'') 4 = Some (Num 1)"
  proof (elim exE conjE)
    fix rcol pcol r' p' s a
    assume r': "cell_at analise_gclick (lit ''data_real_conclusao'') 4 = Some r'"
      and p': "cell_at analise_gclick (lit ''data_prevista_conclusao'') 4 = Some p'"
      and s: "cell_at analise_gclick (lit ''status_prazo'') 4 = Some (Str s)"
      and a: "cell_at analise_gclick (lit ''dias_de_atraso'') 4 = Some a"
      and one: "\<forall>d. r' = Stamp (d + day_ns) \<and> p' = Stamp d \<longrightarrow>
                    s = lit ''Em Atraso'' \<and> a = Num 1"
    from r r' p p' have "r' = Stamp (19787 * day_ns + day_ns)" "p' = Stamp (19787 * day_ns)"
      by simp_all
    with one have "s = lit ''Em Atraso'' \<and> a = Num 1" by blast
    with s a show ?thesis by simp
  qed
  with wf_tarefas_gclick analise_gclick_run i r p show ?thesis by blast
qed

end
